theory Spec2Isabelle
  imports Complex_Main "HOL-Library.Product_Lexorder"
begin

section \<open>Data model\<close>

text \<open>
  Python's \<open>datetime\<close> values are counted in microseconds (the resolution of
  \<open>datetime.now()\<close>); a \<open>timedelta\<close> is a difference of such counts. Every
  \<open>datetime.now()\<close> call of the source is a clock reading passed to the model as
  an argument. The count starts at \<open>datetime.min\<close>, the first instant of year 1,
  and \<open>datetime.max\<close> is the last microsecond of year 9999.
\<close>

type_synonym datetime = int

definition datetime_min :: datetime where
  "datetime_min = 0"

definition datetime_max :: datetime where
  "datetime_max = 3652059 * 86400 * 1000000 - 1"

datatype py_error =
    TimeoutError
  | RuntimeError
  | ValueError
  | AttributeError
  | KeyError

subsection \<open>Floats\<close>

text \<open>
  A float of the source is an IEEE double, and a double is a rational number; the model
  writes floats as rationals. Comparing two doubles is comparing the rationals. Arithmetic
  is not exact: each operation rounds its exact result to the nearest double, ties to the
  even mantissa (\<open>fl\<close>); a double has a mantissa of 53 bits, and the exponent of
  the subnormals is \<open>-1074\<close>. Where a float computation reads a rational that is no
  double it reads the double nearest to it, as Python reads a decimal literal. Results
  beyond the largest double, which are \<open>inf\<close> in the source, stay numbers here;
  the one place where the source acts on such a value is marked where it occurs.
\<close>

fun bit_length :: "nat \<Rightarrow> nat" where
  "bit_length n = (if n = 0 then 0 else Suc (bit_length (n div 2)))"

declare bit_length.simps [simp del]

definition pow2 :: "int \<Rightarrow> rat" where
  "pow2 e = (if e \<ge> 0 then 2 ^ nat e else 1 / 2 ^ nat (- e))"

text \<open>For \<open>x > 0\<close>, the exponent \<open>e\<close> with \<open>2^e \<le> x < 2^(e+1)\<close>.\<close>

definition ilog2 :: "rat \<Rightarrow> int" where
  "ilog2 x =
     (if x \<ge> 1 then int (bit_length (nat \<lfloor>x\<rfloor>)) - 1
      else - int (bit_length (nat (\<lceil>1 / x\<rceil> - 1))))"

definition round_half_even :: "rat \<Rightarrow> int" where
  "round_half_even y =
     (let f = \<lfloor>y\<rfloor>; r = y - of_int f
      in if r < 1 / 2 then f else if r > 1 / 2 then f + 1
         else if even f then f else f + 1)"

definition fl :: "rat \<Rightarrow> rat" where
  "fl x =
     (if x = 0 then 0
      else
        (let e = max (ilog2 \<bar>x\<bar> - 52) (- 1074)
         in sgn x * of_int (round_half_even (\<bar>x\<bar> / pow2 e)) * pow2 e))"

text \<open>
  \<open>sum(xs)\<close> over floats: from the integer 0, left to right, each partial sum
  rounded (the interpreters that run NVDA 2023.1 to 2024.4 add this way). Then
  \<open>sum(xs) / len(xs)\<close>.
\<close>

definition float_sum :: "rat list \<Rightarrow> rat" where
  "float_sum xs = foldl (\<lambda>acc x. fl (acc + fl x)) 0 xs"

definition float_mean :: "rat list \<Rightarrow> rat" where
  "float_mean xs = fl (float_sum xs / of_nat (length xs))"

datatype InferenceSource = LOCAL_GPU | LOCAL_CPU | CLOUD_API | CACHE

datatype RecognitionStatus = SUCCESS | PARTIAL_SUCCESS | FAILURE | TIMEOUT | CACHE_HIT

text \<open>
  \<open>schemas/ui_element.py\<close>: the dataclass declares eight fields. The result processor
  also reads two instance attributes, \<open>attributes\<close> and \<open>id\<close>, that the
  dataclass does not declare; an instance has them only if some caller has set them on the
  object, so each is an option here, \<open>None\<close> meaning that reading it raises
  \<open>AttributeError\<close>.
\<close>

record UIElement =
  element_type :: string
  elem_text :: string
  bbox :: "int list"
  confidence :: rat
  app_name :: "string option"
  parent_id :: "string option"
  actionable :: bool
  created_at :: datetime
  attributes :: "(string \<times> string list) list option"
  elem_id :: "string option"

text \<open>\<open>UIElement.__post_init__\<close>: the checks, in the source's order.\<close>

definition UIElement_post_init :: "UIElement \<Rightarrow> py_error + UIElement" where
  "UIElement_post_init e =
     (if \<not> (0 \<le> confidence e \<and> confidence e \<le> 1) then Inl ValueError
      else (case bbox e of
              [x1, y1, x2, y2] \<Rightarrow>
                (if x2 \<le> x1 \<or> y2 \<le> y1 then Inl ValueError else Inr e)
            | _ \<Rightarrow> Inl ValueError))"

text \<open>
  The generated constructor: the eight declared fields, no other attribute, then
  \<open>__post_init__\<close>.
\<close>

definition UIElement_init ::
  "string \<Rightarrow> string \<Rightarrow> int list \<Rightarrow> rat \<Rightarrow> string option \<Rightarrow> string option \<Rightarrow> bool
     \<Rightarrow> datetime \<Rightarrow> py_error + UIElement" where
  "UIElement_init ty tx bb c app par act created =
     UIElement_post_init
       \<lparr>element_type = ty, elem_text = tx, bbox = bb, confidence = c, app_name = app,
        parent_id = par, actionable = act, created_at = created,
        attributes = None, elem_id = None\<rparr>"

text \<open>\<open>schemas/screenshot.py\<close>: the fields the pipeline reads.\<close>

record Screenshot =
  hash :: string
  width :: int
  height :: int

section \<open>The vision engine (services/vision_engine.py)\<close>

text \<open>
  An adapter is an object: \<open>obj\<close> is its identity, and two slots of an engine hold
  the same adapter when they hold the same object. Its \<open>infer\<close> may answer
  differently each time it is called, so it is given the number of calls the object has
  already had in the invocation: \<open>infer a k\<close> is what the \<open>(k+1)\<close>-th call
  does on a screenshot with a timeout, raise (\<open>Inl\<close>) or return elements.
\<close>

record VisionModelAdapter =
  obj :: nat
  name :: string
  infer :: "nat \<Rightarrow> Screenshot \<Rightarrow> rat \<Rightarrow> py_error + UIElement list"

record VisionEngine =
  primary_adapter :: VisionModelAdapter
  backup_adapters :: "VisionModelAdapter list"
  cloud_adapter :: "VisionModelAdapter option"
  enable_cloud :: bool
  inference_count :: nat
  fallback_count :: nat
  cloud_count :: nat

text \<open>
  What an invocation does that is visible outside it, in order: a call of the object in a
  slot, a message to the user, the consent dialog.
\<close>

datatype slot = Primary | Backup nat | Cloud

datatype engine_event = Infer slot nat | Notify string | AskConsent

text \<open>
  One call of \<open>adapter.infer\<close>; \<open>seen\<close> lists the objects called so far in
  the invocation.
\<close>

definition call_infer ::
  "VisionModelAdapter \<Rightarrow> nat list \<Rightarrow> Screenshot \<Rightarrow> rat \<Rightarrow> py_error + UIElement list" where
  "call_infer a seen shot timeout = infer a (count_list seen (obj a)) shot timeout"

text \<open>
  The loop over \<open>self.backup_adapters\<close>: the first adapter that returns ends the
  loop, an adapter that raises is skipped.
\<close>

fun try_backups ::
  "VisionModelAdapter list \<Rightarrow> nat \<Rightarrow> nat list \<Rightarrow> Screenshot \<Rightarrow> rat
     \<Rightarrow> UIElement list option \<times> nat list \<times> engine_event list" where
  "try_backups [] i seen shot timeout = (None, seen, [])"
| "try_backups (a # as) i seen shot timeout =
     (case call_infer a seen shot timeout of
        Inr els \<Rightarrow> (Some els, seen @ [obj a], [Infer (Backup i) (obj a)])
      | Inl e \<Rightarrow>
          (case try_backups as (Suc i) (seen @ [obj a]) shot timeout of
             (r, seen', tr) \<Rightarrow> (r, seen', Infer (Backup i) (obj a) # tr)))"

text \<open>
  The cloud step. \<open>consent\<close> is the answer \<open>_check_cloud_consent\<close> gives if it
  is asked.
\<close>

definition try_cloud ::
  "VisionEngine \<Rightarrow> bool \<Rightarrow> nat list \<Rightarrow> Screenshot \<Rightarrow> rat
     \<Rightarrow> UIElement list option \<times> VisionEngine \<times> engine_event list" where
  "try_cloud eng consent seen shot timeout =
     (case (if enable_cloud eng then cloud_adapter eng else None) of
        None \<Rightarrow> (None, eng, [])
      | Some c \<Rightarrow>
          (if consent then
             (let eng' = eng\<lparr>cloud_count := cloud_count eng + 1\<rparr>;
                  pre = [AskConsent, Notify ''Local models failed, using cloud API...'',
                         Infer Cloud (obj c)]
              in case call_infer c seen shot timeout of
                   Inr els \<Rightarrow>
                     (Some els, eng',
                      pre @ [Notify ''Recognition successful via cloud API''])
                 | Inl e \<Rightarrow> (None, eng', pre))
           else (None, eng, [AskConsent, Notify ''Cloud API declined by user''])))"

definition infer_with_fallback ::
  "VisionEngine \<Rightarrow> bool \<Rightarrow> Screenshot \<Rightarrow> rat
     \<Rightarrow> (UIElement list \<times> InferenceSource) \<times> VisionEngine \<times> engine_event list" where
  "infer_with_fallback eng consent shot timeout =
     (let eng1 = eng\<lparr>inference_count := inference_count eng + 1\<rparr>;
          p = primary_adapter eng1
      in case call_infer p [] shot timeout of
           Inr els \<Rightarrow> ((els, LOCAL_GPU), eng1, [Infer Primary (obj p)])
         | Inl e \<Rightarrow>
             (let eng2 = eng1\<lparr>fallback_count := fallback_count eng1 + 1\<rparr>;
                  note = (if e = TimeoutError
                          then ''Primary model timed out, switching to backup...''
                          else ''Primary model failed, switching to backup...'')
              in case try_backups (backup_adapters eng2) 0 [obj p] shot timeout of
                   (Some els, seen, tr) \<Rightarrow>
                     ((els, LOCAL_CPU), eng2, Infer Primary (obj p) # Notify note # tr)
                 | (None, seen, tr) \<Rightarrow>
                     (case try_cloud eng2 consent seen shot timeout of
                        (Some els, eng3, tr') \<Rightarrow>
                          ((els, CLOUD_API), eng3,
                           Infer Primary (obj p) # Notify note # tr @ tr')
                      | (None, eng3, tr') \<Rightarrow>
                          (([], CACHE), eng3,
                           Infer Primary (obj p) # Notify note # tr @ tr'))))"

text \<open>The calls an invocation made, slot and object, in the order it made them.\<close>

fun called :: "engine_event list \<Rightarrow> (slot \<times> nat) list" where
  "called [] = []"
| "called (Infer s a # evs) = (s, a) # called evs"
| "called (ev # evs) = called evs"

subsection \<open>How the plugin builds the engine (\<open>__init__.py\<close>)\<close>

text \<open>
  \<open>backups.remove(adapter)\<close>: the first occurrence of the object goes.
\<close>

fun remove_adapter :: "VisionModelAdapter \<Rightarrow> VisionModelAdapter list \<Rightarrow> VisionModelAdapter list" where
  "remove_adapter c [] = []"
| "remove_adapter c (a # as) = (if obj a = obj c then as else a # remove_adapter c as)"

text \<open>
  From the adapters the detector found, in its order: the first is the primary, the rest
  are backups; the first adapter named \<open>Doubao Cloud API\<close> is the cloud adapter and
  is taken out of the backups. No adapter, no engine.
\<close>

definition plugin_engine :: "VisionModelAdapter list \<Rightarrow> bool \<Rightarrow> VisionEngine option" where
  "plugin_engine adapters enable =
     (case adapters of
        [] \<Rightarrow> None
      | primary # rest \<Rightarrow>
          (let cloud = find (\<lambda>a. name a = ''Doubao Cloud API'') adapters;
               backups = (case cloud of None \<Rightarrow> rest | Some c \<Rightarrow> remove_adapter c rest)
           in Some \<lparr>primary_adapter = primary, backup_adapters = backups,
                     cloud_adapter = cloud, enable_cloud = enable,
                     inference_count = 0, fallback_count = 0, cloud_count = 0\<rparr>))"

section \<open>Recognition results (schemas/recognition_result.py)\<close>

record RecognitionResult =
  rid :: string
  screenshot_hash :: string
  elements :: "UIElement list"
  model_name :: string
  inference_time :: rat
  status :: RecognitionStatus
  source :: InferenceSource
  result_created_at :: datetime
  expires_at :: "datetime option"
  model_version :: "string option"

text \<open>\<open>constants.CACHE_TTL\<close>, seconds.\<close>

definition CACHE_TTL :: int where
  "CACHE_TTL = 300"

definition seconds :: "int \<Rightarrow> int" where
  "seconds n = n * 1000000"

text \<open>
  \<open>RecognitionResult.__post_init__\<close>; \<open>uuid\<close> is what \<open>uuid.uuid4()\<close>
  returns if it is called. The creation time is a clock reading, more than
  \<open>CACHE_TTL\<close> before \<open>datetime.max\<close>, so the sum does not overflow.
\<close>

definition RecognitionResult_post_init ::
  "string \<Rightarrow> RecognitionResult \<Rightarrow> py_error + RecognitionResult" where
  "RecognitionResult_post_init uuid r =
     (let r1 = (if rid r = [] then r\<lparr>rid := uuid\<rparr> else r)
      in if inference_time r1 < 0 then Inl ValueError
         else Inr (case expires_at r1 of
                     None \<Rightarrow> r1\<lparr>expires_at := Some (result_created_at r1 + seconds CACHE_TTL)\<rparr>
                   | Some x \<Rightarrow> r1))"

definition is_expired :: "RecognitionResult \<Rightarrow> datetime \<Rightarrow> bool" where
  "is_expired r now = (case expires_at r of None \<Rightarrow> False | Some x \<Rightarrow> now \<ge> x)"

text \<open>
  The dictionaries of \<open>to_dict\<close>, one field per key. A timestamp key holds the
  \<open>isoformat()\<close> text of a datetime in the source; \<open>fromisoformat\<close> reads that
  text back to the same datetime, so here the key holds the datetime.

  An enum key holds a string, which \<open>from_dict\<close> hands to \<open>hasattr(E, s)\<close> and
  \<open>E[s]\<close>. What these do depends only on which of three kinds the string is: the
  name of a member of the enum \<open>E\<close>; the name of another attribute of the class
  (\<open>__members__\<close>, \<open>__doc__\<close>, ...), for which \<open>hasattr\<close> is true and
  \<open>E[s]\<close> raises \<open>KeyError\<close>; or any other string, for which \<open>hasattr\<close> is
  false. The key holds the string with its kind.
\<close>

datatype 'e enum_key = MemberName 'e | AttributeName string | OtherString string

record element_dict =
  d_type :: string
  d_text :: string
  d_bbox :: "int list"
  d_confidence :: rat
  d_app_name :: "string option"
  d_parent_id :: "string option"
  d_actionable :: bool
  d_created_at :: datetime

record result_dict =
  d_id :: string
  d_screenshot_hash :: string
  d_elements :: "element_dict list"
  d_model_name :: string
  d_model_version :: "string option"
  d_inference_time :: rat
  d_status :: "RecognitionStatus enum_key"
  d_source :: "InferenceSource enum_key"
  d_result_created_at :: datetime
  d_expires_at :: "datetime option"
  d_element_count :: nat
  d_average_confidence :: rat

text \<open>
  \<open>E[s] if hasattr(E, s) else default\<close>.
\<close>

definition enum_of_key :: "'e \<Rightarrow> 'e enum_key \<Rightarrow> py_error + 'e" where
  "enum_of_key dflt k =
     (case k of
        MemberName m \<Rightarrow> Inr m
      | AttributeName s \<Rightarrow> Inl KeyError
      | OtherString s \<Rightarrow> Inr dflt)"

definition UIElement_to_dict :: "UIElement \<Rightarrow> element_dict" where
  "UIElement_to_dict e =
     \<lparr>d_type = element_type e, d_text = elem_text e, d_bbox = bbox e,
      d_confidence = confidence e, d_app_name = app_name e, d_parent_id = parent_id e,
      d_actionable = actionable e, d_created_at = created_at e\<rparr>"

definition UIElement_from_dict :: "element_dict \<Rightarrow> py_error + UIElement" where
  "UIElement_from_dict d =
     UIElement_init (d_type d) (d_text d) (d_bbox d) (d_confidence d) (d_app_name d)
       (d_parent_id d) (d_actionable d) (d_created_at d)"

text \<open>A list comprehension over a function that may raise: the first error ends it.\<close>

fun map_raising :: "('a \<Rightarrow> py_error + 'b) \<Rightarrow> 'a list \<Rightarrow> py_error + 'b list" where
  "map_raising f [] = Inr []"
| "map_raising f (x # xs) =
     (case f x of
        Inl err \<Rightarrow> Inl err
      | Inr y \<Rightarrow> (case map_raising f xs of Inl err \<Rightarrow> Inl err | Inr ys \<Rightarrow> Inr (y # ys)))"

definition average_confidence :: "UIElement list \<Rightarrow> rat" where
  "average_confidence es =
     (if es = [] then 0 else float_mean (map confidence es))"

definition RecognitionResult_to_dict :: "RecognitionResult \<Rightarrow> result_dict" where
  "RecognitionResult_to_dict r =
     \<lparr>d_id = rid r, d_screenshot_hash = screenshot_hash r,
      d_elements = map UIElement_to_dict (elements r), d_model_name = model_name r,
      d_model_version = model_version r, d_inference_time = inference_time r,
      d_status = MemberName (status r), d_source = MemberName (source r),
      d_result_created_at = result_created_at r, d_expires_at = expires_at r,
      d_element_count = length (elements r),
      d_average_confidence = average_confidence (elements r)\<rparr>"

definition RecognitionResult_from_dict ::
  "string \<Rightarrow> result_dict \<Rightarrow> py_error + RecognitionResult" where
  "RecognitionResult_from_dict uuid d =
     (case map_raising UIElement_from_dict (d_elements d) of
        Inl err \<Rightarrow> Inl err
      | Inr es \<Rightarrow>
          (case enum_of_key SUCCESS (d_status d) of
             Inl err \<Rightarrow> Inl err
           | Inr st \<Rightarrow>
               (case enum_of_key LOCAL_GPU (d_source d) of
                  Inl err \<Rightarrow> Inl err
                | Inr src \<Rightarrow>
                    RecognitionResult_post_init uuid
                      \<lparr>rid = d_id d, screenshot_hash = d_screenshot_hash d, elements = es,
                       model_name = d_model_name d, inference_time = d_inference_time d,
                       status = st, source = src,
                       result_created_at = d_result_created_at d,
                       expires_at = d_expires_at d,
                       model_version = d_model_version d\<rparr>)))"

text \<open>
  Dataclass equality compares the declared fields only, so two elements are equal in the
  source when they agree on these.
\<close>

definition UIElement_eq :: "UIElement \<Rightarrow> UIElement \<Rightarrow> bool" where
  "UIElement_eq a b \<longleftrightarrow>
     element_type a = element_type b \<and> elem_text a = elem_text b \<and> bbox a = bbox b \<and>
     confidence a = confidence b \<and> app_name a = app_name b \<and> parent_id a = parent_id b \<and>
     actionable a = actionable b \<and> created_at a = created_at b"

section \<open>The result processor (services/result_processor.py)\<close>

definition filter_invalid :: "UIElement list \<Rightarrow> UIElement list" where
  "filter_invalid es =
     filter (\<lambda>e. case bbox e of
                    [x1, y1, x2, y2] \<Rightarrow>
                      \<not> (x1 \<ge> x2 \<or> y1 \<ge> y2) \<and> \<not> (confidence e < 0 \<or> confidence e > 1)
                  | _ \<Rightarrow> False) es"

text \<open>
  \<open>element.attributes["annotations"]\<close> is created empty when the key is missing, then
  \<open>"uncertain"\<close> is appended to it.
\<close>

definition add_uncertain :: "(string \<times> string list) list \<Rightarrow> (string \<times> string list) list" where
  "add_uncertain d =
     (case map_of d ''annotations'' of
        None \<Rightarrow> d @ [(''annotations'', [''uncertain''])]
      | Some l \<Rightarrow>
          map (\<lambda>(k, v). if k = ''annotations'' then (k, v @ [''uncertain'']) else (k, v)) d)"

fun annotate_uncertainty :: "rat \<Rightarrow> UIElement list \<Rightarrow> py_error + UIElement list" where
  "annotate_uncertainty thr [] = Inr []"
| "annotate_uncertainty thr (e # es) =
     (if confidence e < thr then
        (case attributes e of
           None \<Rightarrow> Inl AttributeError
         | Some d \<Rightarrow>
             (case annotate_uncertainty thr es of
                Inl err \<Rightarrow> Inl err
              | Inr es' \<Rightarrow> Inr (e\<lparr>attributes := Some (add_uncertain d)\<rparr> # es')))
      else
        (case annotate_uncertainty thr es of
           Inl err \<Rightarrow> Inl err
         | Inr es' \<Rightarrow> Inr (e # es')))"

text \<open>
  \<open>sorted(elements, key=sort_key)\<close>: the key unpacks the four coordinates (a
  \<open>ValueError\<close> on any other length), the sort is stable.
\<close>

definition position_key :: "UIElement \<Rightarrow> int \<times> int" where
  "position_key e = (case bbox e of [x1, y1, x2, y2] \<Rightarrow> (y1, x1) | _ \<Rightarrow> (0, 0))"

definition sort_by_position :: "UIElement list \<Rightarrow> py_error + UIElement list" where
  "sort_by_position es =
     (if list_all (\<lambda>e. length (bbox e) = 4) es then Inr (sort_key position_key es)
      else Inl ValueError)"

text \<open>Python's \<open>f"{n:03d}"\<close> for a natural number: decimal, zero-padded to three.\<close>

fun decimal :: "nat \<Rightarrow> string" where
  "decimal n =
     (if n < 10 then [char_of (48 + n)] else decimal (n div 10) @ [char_of (48 + n mod 10)])"

definition fmt03d :: "nat \<Rightarrow> string" where
  "fmt03d n = replicate (3 - length (decimal n)) (CHR ''0'') @ decimal n"

text \<open>\<open>_assign_ids\<close>; \<open>i\<close> is the index \<open>enumerate\<close> has reached.\<close>

fun assign_ids_from :: "nat \<Rightarrow> UIElement list \<Rightarrow> py_error + UIElement list" where
  "assign_ids_from i [] = Inr []"
| "assign_ids_from i (e # es) =
     (case elem_id e of
        None \<Rightarrow> Inl AttributeError
      | Some s \<Rightarrow>
          (let e' = (if s = [] then e\<lparr>elem_id := Some (''element_'' @ fmt03d (i + 1))\<rparr> else e)
           in case assign_ids_from (Suc i) es of
                Inl err \<Rightarrow> Inl err
              | Inr es' \<Rightarrow> Inr (e' # es')))"

definition assign_ids :: "UIElement list \<Rightarrow> py_error + UIElement list" where
  "assign_ids es = assign_ids_from 0 es"

text \<open>
  \<open>_determine_status\<close>: the mean is a float computation, compared with the threshold
  as a double.
\<close>

definition determine_status :: "rat \<Rightarrow> UIElement list \<Rightarrow> RecognitionStatus" where
  "determine_status thr es =
     (if es = [] then FAILURE
      else if length (filter actionable es) = 0 then PARTIAL_SUCCESS
      else if float_mean (map confidence es) < fl thr then PARTIAL_SUCCESS
      else SUCCESS)"

text \<open>
  \<open>ResultProcessor.process\<close> with confidence threshold \<open>thr\<close>; \<open>uuid\<close> is the
  fresh identifier, \<open>now\<close> the clock reading taken for \<open>created_at\<close>.
\<close>

definition process ::
  "rat \<Rightarrow> UIElement list \<Rightarrow> Screenshot \<Rightarrow> string \<Rightarrow> rat \<Rightarrow> InferenceSource \<Rightarrow> string
     \<Rightarrow> datetime \<Rightarrow> py_error + RecognitionResult" where
  "process thr els shot mname itime src uuid now =
     (case annotate_uncertainty thr (filter_invalid els) of
        Inl err \<Rightarrow> Inl err
      | Inr annotated \<Rightarrow>
          (case sort_by_position annotated of
             Inl err \<Rightarrow> Inl err
           | Inr sorted_elements \<Rightarrow>
               (case assign_ids sorted_elements of
                  Inl err \<Rightarrow> Inl err
                | Inr id_elements \<Rightarrow>
                    RecognitionResult_post_init uuid
                      \<lparr>rid = uuid, screenshot_hash = hash shot, elements = id_elements,
                       model_name = mname, inference_time = itime,
                       status = determine_status thr id_elements, source = src,
                       result_created_at = now, expires_at = None,
                       model_version = None\<rparr>)))"

section \<open>The cache database (infrastructure/cache_database.py)\<close>

text \<open>
  The three tables, each a list of rows in rowid order, with the columns the code reads or
  writes. \<open>AUTOINCREMENT\<close> keeps the largest rowid ever used per table, so a rowid is
  never reused. Timestamps are stored as text and compared as text by SQLite; two
  timestamps written in the same format compare as the instants they denote. The columns
  \<open>expires_at\<close> and \<open>captured_at\<close> hold Python's \<open>isoformat()\<close> text
  and are compared with such text only. The column \<open>created_at\<close> holds SQLite's
  \<open>CURRENT_TIMESTAMP\<close>, a reading (\<open>sql_now\<close>) of SQLite's own clock cut to
  whole seconds. The column \<open>last_accessed_at\<close> holds either: the default
  \<open>CURRENT_TIMESTAMP\<close> from the insert, or the \<open>isoformat()\<close> text a lookup
  writes over it, so it keeps the format with the instant.

  \<open>foreign_keys\<close> is the connection's \<open>PRAGMA foreign_keys\<close>: SQLite enforces
  \<open>REFERENCES ... ON DELETE CASCADE\<close> only on a connection where it is on.
\<close>

record screenshot_row =
  s_id :: nat
  sha256_hash :: string
  s_width :: int
  s_height :: int
  captured_at :: datetime
  s_expires_at :: datetime

text \<open>
  \<open>SqlText\<close> is the text \<open>YYYY-MM-DD HH:MM:SS\<close> of a
  \<open>CURRENT_TIMESTAMP\<close>, \<open>IsoText\<close> the text
  \<open>YYYY-MM-DDTHH:MM:SS.ffffff\<close> of an \<open>isoformat()\<close>.
\<close>

datatype timestamp_text = SqlText datetime | IsoText datetime

text \<open>
  The order of the two texts as strings. Both begin with the date, ten characters, so the
  day decides first. On the same day the eleventh character decides between the formats,
  and a space sorts before \<open>T\<close>. Within a format the instant decides.
\<close>

definition text_key :: "timestamp_text \<Rightarrow> int \<times> nat \<times> int" where
  "text_key ts =
     (case ts of
        SqlText t \<Rightarrow> (t div (86400 * 1000000), 0, t)
      | IsoText t \<Rightarrow> (t div (86400 * 1000000), 1, t))"

text \<open>\<open>CURRENT_TIMESTAMP\<close>: the reading of SQLite's clock, in whole seconds.\<close>

definition current_timestamp :: "datetime \<Rightarrow> datetime" where
  "current_timestamp sql_now = (sql_now div 1000000) * 1000000"

record result_row =
  r_id :: nat
  screenshot_id :: nat
  r_model_name :: string
  inference_time_ms :: int
  confidence_score :: rat
  element_count :: nat
  result_json :: result_dict
  hit_count :: nat
  last_accessed_at :: timestamp_text
  r_status :: "RecognitionStatus enum_key"
  r_created_at :: datetime

record element_row =
  e_id :: nat
  result_id :: nat
  e_element_type :: string
  text_content :: string
  e_x1 :: int
  e_y1 :: int
  e_x2 :: int
  e_y2 :: int
  e_confidence :: rat
  e_actionable :: bool

record CacheDatabase =
  screenshots :: "screenshot_row list"
  recognition_results :: "result_row list"
  ui_elements :: "element_row list"
  seq_screenshots :: nat
  seq_results :: nat
  seq_elements :: nat
  foreign_keys :: bool

datatype db_error = IntegrityError | TypeError | IndexError | OverflowError

text \<open>
  An \<open>INTEGER\<close> parameter must fit 64 bits: \<open>sqlite3\<close> raises
  \<open>OverflowError\<close> when it binds a larger Python int, before the statement runs.
\<close>

definition int64 :: "int \<Rightarrow> bool" where
  "int64 n \<longleftrightarrow> - (2 ^ 63) \<le> n \<and> n < 2 ^ 63"

text \<open>
  \<open>sqlite3.connect\<close> on a new file followed by \<open>_create_tables\<close>: empty tables.
  The connection is opened with \<open>check_same_thread\<close> and \<open>isolation_level\<close>
  only, and no statement of the module sets the pragma, so it has SQLite's default, off.
\<close>

definition connect_new :: CacheDatabase where
  "connect_new =
     \<lparr>screenshots = [], recognition_results = [], ui_elements = [],
      seq_screenshots = 0, seq_results = 0, seq_elements = 0, foreign_keys = False\<rparr>"

text \<open>
  \<open>DELETE FROM recognition_results WHERE ...\<close>: the rows go; their \<open>ui_elements\<close>
  rows go with them when foreign keys are enforced.
\<close>

definition delete_results :: "(result_row \<Rightarrow> bool) \<Rightarrow> CacheDatabase \<Rightarrow> CacheDatabase" where
  "delete_results P db =
     (let gone = map r_id (filter P (recognition_results db))
      in db\<lparr>recognition_results := filter (\<lambda>r. \<not> P r) (recognition_results db),
             ui_elements :=
               (if foreign_keys db
                then filter (\<lambda>e. result_id e \<notin> set gone) (ui_elements db)
                else ui_elements db)\<rparr>)"

text \<open>
  \<open>DELETE FROM screenshots WHERE ...\<close>, with the number of rows deleted
  (\<open>cursor.rowcount\<close>).
\<close>

definition delete_screenshots ::
  "(screenshot_row \<Rightarrow> bool) \<Rightarrow> CacheDatabase \<Rightarrow> CacheDatabase \<times> nat" where
  "delete_screenshots P db =
     (let gone = map s_id (filter P (screenshots db));
          db1 = db\<lparr>screenshots := filter (\<lambda>s. \<not> P s) (screenshots db)\<rparr>
      in ((if foreign_keys db
           then delete_results (\<lambda>r. screenshot_id r \<in> set gone) db1
           else db1),
          length gone))"

definition cleanup_expired :: "CacheDatabase \<Rightarrow> datetime \<Rightarrow> CacheDatabase \<times> nat" where
  "cleanup_expired db now = delete_screenshots (\<lambda>s. s_expires_at s < now) db"

text \<open>
  \<open>CacheDatabase.__init__\<close> on a file that already holds \<open>stored\<close>: a new
  connection (the pragma is per connection), the tables as they are, then the startup
  cleanup.
\<close>

definition CacheDatabase_init :: "CacheDatabase \<Rightarrow> datetime \<Rightarrow> CacheDatabase" where
  "CacheDatabase_init stored now = fst (cleanup_expired (stored\<lparr>foreign_keys := False\<rparr>) now)"

text \<open>
  \<open>_evict_lru\<close>: \<open>ORDER BY last_accessed_at ASC LIMIT to_delete\<close> orders the
  stored texts as strings; rows with equal texts stay in rowid order.
\<close>

definition evict_lru :: "CacheDatabase \<Rightarrow> int \<Rightarrow> CacheDatabase" where
  "evict_lru db keep_count =
     (let current_count = int (length (recognition_results db))
      in if current_count \<le> keep_count then db
         else
           (let to_delete = current_count - keep_count;
                ids = map r_id (take (nat to_delete)
                                  (sort_key (\<lambda>r. text_key (last_accessed_at r))
                                     (recognition_results db)))
            in delete_results (\<lambda>r. r_id r \<in> set ids) db))"

text \<open>
  \<open>INSERT OR IGNORE INTO screenshots\<close>: nothing is written when a row with this hash
  exists (the \<open>UNIQUE\<close> constraint) or a \<open>CHECK\<close> on the dimensions fails.
\<close>

definition insert_or_ignore_screenshot ::
  "CacheDatabase \<Rightarrow> string \<Rightarrow> int \<Rightarrow> int \<Rightarrow> datetime \<Rightarrow> datetime \<Rightarrow> CacheDatabase" where
  "insert_or_ignore_screenshot db h w ht now expires =
     (if (\<exists>s \<in> set (screenshots db). sha256_hash s = h) \<or> \<not> (w > 0) \<or> \<not> (ht > 0) then db
      else db\<lparr>screenshots := screenshots db @
                 [\<lparr>s_id = seq_screenshots db + 1, sha256_hash = h, s_width = w,
                   s_height = ht, captured_at = now, s_expires_at = expires\<rparr>],
               seq_screenshots := seq_screenshots db + 1\<rparr>)"

text \<open>
  The loop of \<open>INSERT INTO ui_elements\<close>. For each element: a bounding box with fewer
  than four coordinates raises at the subscript; a coordinate beyond 64 bits raises when it
  is bound; a confidence outside \<open>[0, 1]\<close> fails the column's \<open>CHECK\<close>. The rows
  written before a failure stay on the connection.
\<close>

fun insert_elements ::
  "CacheDatabase \<Rightarrow> nat \<Rightarrow> element_dict list \<Rightarrow> CacheDatabase \<times> db_error option" where
  "insert_elements db rid_new [] = (db, None)"
| "insert_elements db rid_new (d # ds) =
     (case d_bbox d of
        a # b # c # e # rest \<Rightarrow>
          (if \<not> (int64 a \<and> int64 b \<and> int64 c \<and> int64 e) then (db, Some OverflowError)
           else if \<not> (0 \<le> d_confidence d \<and> d_confidence d \<le> 1)
           then (db, Some IntegrityError)
           else insert_elements
                  (db\<lparr>ui_elements := ui_elements db @
                        [\<lparr>e_id = seq_elements db + 1, result_id = rid_new,
                          e_element_type = d_type d, text_content = d_text d,
                          e_x1 = a, e_y1 = b, e_x2 = c, e_y2 = e,
                          e_confidence = d_confidence d, e_actionable = d_actionable d\<rparr>],
                      seq_elements := seq_elements db + 1\<rparr>)
                  rid_new ds)
      | _ \<Rightarrow> (db, Some IndexError))"

text \<open>Python's \<open>int()\<close> of a float: truncation towards zero.\<close>

definition py_int :: "rat \<Rightarrow> int" where
  "py_int x = (if x \<ge> 0 then \<lfloor>x\<rfloor> else \<lceil>x\<rceil>)"

text \<open>
  \<open>int(inference_time * 1000)\<close>: the product is a float product. Beyond the largest
  double the source has \<open>inf\<close> and \<open>int\<close> raises \<open>OverflowError\<close>; here the
  product is then a number beyond 64 bits, for which \<open>insert_cache\<close> gives the same
  error.
\<close>

definition inference_ms :: "rat \<Rightarrow> int" where
  "inference_ms t = py_int (fl (fl t * 1000))"

text \<open>
  \<open>insert_cache\<close>. \<open>now\<close> is the \<open>datetime.now()\<close> of the call,
  \<open>sql_now\<close> the clock reading behind the \<open>CURRENT_TIMESTAMP\<close> of the new result
  row. The result is the database and the exception raised, if any; an exception leaves
  what was written before it. The steps, in the source's order: the eviction;
  \<open>now + timedelta(minutes=ttl_minutes)\<close>, which raises \<open>OverflowError\<close> outside
  \<open>datetime.min\<close> to \<open>datetime.max\<close>; the screenshot row; its id, a
  \<open>TypeError\<close> on the missing row; the metrics; the result row; the element rows.
\<close>

definition insert_cache ::
  "CacheDatabase \<Rightarrow> datetime \<Rightarrow> datetime \<Rightarrow> string \<Rightarrow> int \<Rightarrow> int \<Rightarrow> result_dict \<Rightarrow> string
     \<Rightarrow> int \<Rightarrow> int \<Rightarrow> CacheDatabase \<times> db_error option" where
  "insert_cache db now sql_now h w ht rd mname ttl_minutes max_results =
     (let db1 = (if int (length (recognition_results db)) \<ge> max_results
                 then evict_lru db max_results else db);
          expires = now + seconds (ttl_minutes * 60)
      in if expires < datetime_min \<or> datetime_max < expires then (db1, Some OverflowError)
         else if \<not> (int64 w \<and> int64 ht) then (db1, Some OverflowError)
         else
           (let db2 = insert_or_ignore_screenshot db1 h w ht now expires
            in case filter (\<lambda>s. sha256_hash s = h) (screenshots db2) of
                 [] \<Rightarrow> (db2, Some TypeError)
               | srow # _ \<Rightarrow>
                   (let els = d_elements rd;
                        n = length els;
                        avg = (if n > 0 then float_mean (map d_confidence els) else 0);
                        ms = inference_ms (d_inference_time rd)
                    in if \<not> int64 ms then (db2, Some OverflowError)
                       else if \<not> (ms \<ge> 0) \<or> \<not> (0 \<le> avg \<and> avg \<le> 1)
                       then (db2, Some IntegrityError)
                       else
                         (let new_id = seq_results db2 + 1;
                              db3 = db2\<lparr>recognition_results := recognition_results db2 @
                                           [\<lparr>r_id = new_id, screenshot_id = s_id srow,
                                             r_model_name = mname, inference_time_ms = ms,
                                             confidence_score = avg, element_count = n,
                                             result_json = rd, hit_count = 0,
                                             last_accessed_at =
                                               SqlText (current_timestamp sql_now),
                                             r_status = d_status rd,
                                             r_created_at = current_timestamp sql_now\<rparr>],
                                         seq_results := new_id\<rparr>
                          in insert_elements db3 new_id els))))"

text \<open>
  \<open>lookup_cache\<close>. \<open>now1\<close> is the clock reading in the query, \<open>now2\<close> the
  one in the update. \<open>ORDER BY r.created_at DESC LIMIT 1\<close> is a stable sort of the
  joined rows, which come in rowid order: SQL leaves the order of rows with equal
  \<open>created_at\<close> open, SQLite yields them by rowid, and the properties below only use
  rows that differ in \<open>created_at\<close>. The result is the parsed dictionary with the
  \<open>_hit_count\<close> added to it.
\<close>

definition lookup_cache ::
  "CacheDatabase \<Rightarrow> datetime \<Rightarrow> datetime \<Rightarrow> string
     \<Rightarrow> CacheDatabase \<times> (result_dict \<times> nat) option" where
  "lookup_cache db now1 now2 h =
     (let joined = filter (\<lambda>r. \<exists>s \<in> set (screenshots db).
                                 screenshot_id r = s_id s \<and> sha256_hash s = h \<and>
                                 s_expires_at s > now1)
                          (recognition_results db)
      in case sort_key (\<lambda>r. - r_created_at r) joined of
           [] \<Rightarrow> (db, None)
         | row # _ \<Rightarrow>
             (db\<lparr>recognition_results :=
                   map (\<lambda>r. if r_id r = r_id row
                             then r\<lparr>hit_count := hit_count r + 1,
                                    last_accessed_at := IsoText now2\<rparr>
                             else r)
                       (recognition_results db)\<rparr>,
              Some (result_json row, hit_count row + 1)))"

section \<open>The cache manager (services/cache_manager.py)\<close>

record CacheManager =
  ttl_seconds :: int
  max_size :: int
  db :: CacheDatabase

text \<open>
  \<open>CacheManager.get\<close>: \<open>now3\<close> is the clock reading of \<open>is_expired\<close>. Any
  exception is logged and becomes \<open>None\<close>.
\<close>

definition CacheManager_get ::
  "CacheManager \<Rightarrow> Screenshot \<Rightarrow> datetime \<Rightarrow> datetime \<Rightarrow> datetime \<Rightarrow> string
     \<Rightarrow> CacheManager \<times> RecognitionResult option" where
  "CacheManager_get m shot now1 now2 now3 uuid =
     (case lookup_cache (db m) now1 now2 (hash shot) of
        (db', None) \<Rightarrow> (m\<lparr>db := db'\<rparr>, None)
      | (db', Some (cached, hits)) \<Rightarrow>
          (case RecognitionResult_from_dict uuid cached of
             Inl err \<Rightarrow> (m\<lparr>db := db'\<rparr>, None)
           | Inr res \<Rightarrow>
               (if is_expired res now3 then (m\<lparr>db := db'\<rparr>, None)
                else (m\<lparr>db := db'\<rparr>, Some res))))"

text \<open>\<open>CacheManager.put\<close>: an exception of the insert is logged and swallowed.\<close>

definition CacheManager_put ::
  "CacheManager \<Rightarrow> Screenshot \<Rightarrow> RecognitionResult \<Rightarrow> datetime \<Rightarrow> datetime \<Rightarrow> CacheManager" where
  "CacheManager_put m shot res now sql_now =
     m\<lparr>db := fst (insert_cache (db m) now sql_now (hash shot) (width shot) (height shot)
                    (RecognitionResult_to_dict res) (model_name res)
                    (ttl_seconds m div 60) (max_size m))\<rparr>"

section \<open>The recognition controller (core/recognition_controller.py)\<close>

record RecognitionController =
  current_result :: "RecognitionResult option"
  current_element_index :: int

text \<open>
  Python's \<open>xs[i]\<close>: a negative index counts from the end, an index out of range
  raises \<open>IndexError\<close> (\<open>None\<close> here).
\<close>

definition py_getitem :: "'a list \<Rightarrow> int \<Rightarrow> 'a option" where
  "py_getitem xs i =
     (let n = int (length xs); j = (if i < 0 then n + i else i)
      in if 0 \<le> j \<and> j < n then Some (xs ! nat j) else None)"

text \<open>
  The cursor operations return the element, \<open>None\<close>, or raise the subscript's
  \<open>IndexError\<close> (\<open>Inl\<close>), together with the controller they leave.
\<close>

definition get_next_element ::
  "RecognitionController \<Rightarrow> (unit + UIElement option) \<times> RecognitionController" where
  "get_next_element c =
     (case current_result c of
        None \<Rightarrow> (Inr None, c)
      | Some r \<Rightarrow>
          (if elements r = [] then (Inr None, c)
           else
             (let c1 = c\<lparr>current_element_index := current_element_index c + 1\<rparr>
              in if current_element_index c1 \<ge> int (length (elements r))
                 then (Inr None, c1\<lparr>current_element_index := int (length (elements r)) - 1\<rparr>)
                 else (case py_getitem (elements r) (current_element_index c1) of
                         None \<Rightarrow> (Inl (), c1)
                       | Some e \<Rightarrow> (Inr (Some e), c1)))))"

definition get_previous_element ::
  "RecognitionController \<Rightarrow> (unit + UIElement option) \<times> RecognitionController" where
  "get_previous_element c =
     (case current_result c of
        None \<Rightarrow> (Inr None, c)
      | Some r \<Rightarrow>
          (if elements r = [] then (Inr None, c)
           else
             (let c1 = c\<lparr>current_element_index := current_element_index c - 1\<rparr>
              in if current_element_index c1 < 0
                 then (Inr None, c1\<lparr>current_element_index := 0\<rparr>)
                 else (case py_getitem (elements r) (current_element_index c1) of
                         None \<Rightarrow> (Inl (), c1)
                       | Some e \<Rightarrow> (Inr (Some e), c1)))))"

definition get_current_element :: "RecognitionController \<Rightarrow> unit + UIElement option" where
  "get_current_element c =
     (case current_result c of
        None \<Rightarrow> Inr None
      | Some r \<Rightarrow>
          (if elements r = [] then Inr None
           else if current_element_index c < 0 \<or>
                   current_element_index c \<ge> int (length (elements r)) then Inr None
           else (case py_getitem (elements r) (current_element_index c) of
                   None \<Rightarrow> Inl ()
                 | Some e \<Rightarrow> Inr (Some e))))"

text \<open>
  \<open>n\<close> calls of \<open>get_next_element\<close>: what each call returned, with the index
  it left, and the final controller.
\<close>

fun next_times ::
  "nat \<Rightarrow> RecognitionController
     \<Rightarrow> ((unit + UIElement option) \<times> int) list \<times> RecognitionController" where
  "next_times 0 c = ([], c)"
| "next_times (Suc n) c =
     (case get_next_element c of
        (r, c1) \<Rightarrow>
          (case next_times n c1 of
             (rs, c2) \<Rightarrow> ((r, current_element_index c1) # rs, c2)))"

text \<open>
  The worker. What it is given: the outcome of \<open>capture_active_window\<close>; the value of
  \<open>_cancel_requested\<close> at each of its three reads; the answer of the consent dialog if
  it is shown; the clock readings; the measured inference time; the fresh identifiers. What
  it leaves: the controller, the cache manager, the engine, and the callbacks it has
  handed to the main thread, in order.
\<close>

datatype callback = OnComplete RecognitionResult | OnError py_error

record worker_env =
  captured :: "py_error + Screenshot"
  cancel_after_capture :: bool
  cancel_before_inference :: bool
  cancel_after_inference :: bool
  consent_given :: bool
  t_lookup :: datetime
  t_hit_update :: datetime
  t_expiry_check :: datetime
  t_created :: datetime
  t_put :: datetime
  t_put_sql :: datetime
  measured_inference_time :: rat
  uuid_lookup :: string
  uuid_result :: string

record worker_state =
  controller :: RecognitionController
  cache_manager :: CacheManager
  vision_engine :: VisionEngine

definition recognition_worker ::
  "rat \<Rightarrow> rat \<Rightarrow> worker_env \<Rightarrow> worker_state \<Rightarrow> worker_state \<times> callback list" where
  "recognition_worker thr timeout env st =
     (case captured env of
        Inl err \<Rightarrow> (st, [OnError err])
      | Inr shot \<Rightarrow>
          (if cancel_after_capture env then (st, [])
           else
             (case CacheManager_get (cache_manager st) shot (t_lookup env) (t_hit_update env)
                     (t_expiry_check env) (uuid_lookup env) of
                (m1, Some cached_result) \<Rightarrow>
                  (st\<lparr>cache_manager := m1,
                      controller := \<lparr>current_result = Some cached_result,
                                     current_element_index = 0\<rparr>\<rparr>,
                   [OnComplete cached_result])
              | (m1, None) \<Rightarrow>
                  (let st1 = st\<lparr>cache_manager := m1\<rparr>
                   in if cancel_before_inference env then (st1, [])
                      else
                        (case infer_with_fallback (vision_engine st1) (consent_given env) shot timeout of
                           ((els, src), eng1, evs) \<Rightarrow>
                             (let st2 = st1\<lparr>vision_engine := eng1\<rparr>
                              in if cancel_after_inference env then (st2, [])
                                 else
                                   (case process thr els shot (name (primary_adapter eng1))
                                           (measured_inference_time env) src (uuid_result env)
                                           (t_created env) of
                                      Inl err \<Rightarrow> (st2, [OnError err])
                                    | Inr res \<Rightarrow>
                                        (let m2 = (if status res \<noteq> FAILURE
                                                   then CacheManager_put (cache_manager st2) shot res
                                                          (t_put env) (t_put_sql env)
                                                   else cache_manager st2)
                                         in (st2\<lparr>cache_manager := m2,
                                                 controller := \<lparr>current_result = Some res,
                                                                current_element_index = 0\<rparr>\<rparr>,
                                             [OnComplete res])))))))))"

section \<open>Notions used to state the properties\<close>

text \<open>
  The adapters an invocation may call, in priority order: the primary, the backups, and
  the cloud adapter when cloud is enabled and consent is given.
\<close>

definition priority_adapters :: "VisionEngine \<Rightarrow> bool \<Rightarrow> VisionModelAdapter list" where
  "priority_adapters eng consent =
     primary_adapter eng # backup_adapters eng
       @ (if enable_cloud eng \<and> consent
          then (case cloud_adapter eng of None \<Rightarrow> [] | Some c \<Rightarrow> [c]) else [])"

text \<open>
  Every call raises, when the adapters are called one after the other; \<open>seen\<close> lists
  the objects called before.
\<close>

fun all_fail :: "Screenshot \<Rightarrow> rat \<Rightarrow> nat list \<Rightarrow> VisionModelAdapter list \<Rightarrow> bool" where
  "all_fail shot timeout seen [] = True"
| "all_fail shot timeout seen (a # as) =
     (case call_infer a seen shot timeout of
        Inl err \<Rightarrow> all_fail shot timeout (seen @ [obj a]) as
      | Inr els \<Rightarrow> False)"

text \<open>Backends exhausted: every adapter the invocation may call fails.\<close>

definition all_adapters_fail :: "VisionEngine \<Rightarrow> bool \<Rightarrow> Screenshot \<Rightarrow> rat \<Rightarrow> bool" where
  "all_adapters_fail eng consent shot timeout \<longleftrightarrow>
     all_fail shot timeout [] (priority_adapters eng consent)"

text \<open>
  What a callback tells the caller: the status and the number of elements of a result, or
  the exception.
\<close>

definition reported :: "callback \<Rightarrow> (RecognitionStatus \<times> nat) + py_error" where
  "reported c =
     (case c of
        OnComplete r \<Rightarrow> Inl (status r, length (elements r))
      | OnError err \<Rightarrow> Inr err)"

text \<open>
  What \<open>to_dict\<close> keeps of an element: the declared fields. An attribute set on the
  object outside the dataclass is not serialised, so an element read back has none.
\<close>

definition declared_fields :: "UIElement \<Rightarrow> UIElement" where
  "declared_fields e = e\<lparr>attributes := None, elem_id := None\<rparr>"

section \<open>Concrete inputs\<close>

definition shot0 :: Screenshot where
  "shot0 = \<lparr>hash = replicate 64 (CHR ''a''), width = 800, height = 600\<rparr>"

text \<open>An adapter object that raises at every call, and one that returns at every call.\<close>

definition failing_adapter :: "nat \<Rightarrow> string \<Rightarrow> VisionModelAdapter" where
  "failing_adapter i n = \<lparr>obj = i, name = n, infer = (\<lambda>k shot timeout. Inl TimeoutError)\<rparr>"

definition returning_adapter :: "nat \<Rightarrow> string \<Rightarrow> UIElement list \<Rightarrow> VisionModelAdapter" where
  "returning_adapter i n els = \<lparr>obj = i, name = n, infer = (\<lambda>k shot timeout. Inr els)\<rparr>"

text \<open>
  \<open>UIElement(element_type="button", text="OK", bbox=[100, 100, 180, 130],
  confidence=c, actionable=True)\<close>, created at time 0.
\<close>

definition button :: "rat \<Rightarrow> UIElement" where
  "button c =
     \<lparr>element_type = ''button'', elem_text = ''OK'', bbox = [100, 100, 180, 130],
      confidence = c, app_name = None, parent_id = None, actionable = True,
      created_at = 0, attributes = None, elem_id = None\<rparr>"

text \<open>A failing primary alone, no backup, no cloud adapter.\<close>

definition engine_exhausted :: VisionEngine where
  "engine_exhausted =
     \<lparr>primary_adapter = failing_adapter 1 ''uitars-7b'', backup_adapters = [],
      cloud_adapter = None, enable_cloud = False,
      inference_count = 0, fallback_count = 0, cloud_count = 0\<rparr>"

text \<open>Adapters \<open>[A(fails), B(succeeds)]\<close> and no cloud adapter.\<close>

definition engine_AB :: VisionEngine where
  "engine_AB =
     \<lparr>primary_adapter = failing_adapter 1 ''A'',
      backup_adapters = [returning_adapter 2 ''B'' [button (9 / 10)]],
      cloud_adapter = None, enable_cloud = False,
      inference_count = 0, fallback_count = 0, cloud_count = 0\<rparr>"

text \<open>
  The cloud adapter object, here one whose first call times out and whose later calls
  return; and the engine the plugin builds when the detector finds this adapter alone, with
  cloud enabled in the configuration.
\<close>

definition doubao :: VisionModelAdapter where
  "doubao =
     \<lparr>obj = 3, name = ''Doubao Cloud API'',
      infer = (\<lambda>k shot timeout. if k = 0 then Inl TimeoutError else Inr [button (9 / 10)])\<rparr>"

definition engine_cloud_only :: VisionEngine where
  "engine_cloud_only =
     \<lparr>primary_adapter = doubao, backup_adapters = [],
      cloud_adapter = Some doubao, enable_cloud = True,
      inference_count = 0, fallback_count = 0, cloud_count = 0\<rparr>"

text \<open>A result with five elements, told apart by their confidences, and a cursor on its first.\<close>

definition result5 :: RecognitionResult where
  "result5 =
     \<lparr>rid = ''r5'', screenshot_hash = hash shot0,
      elements = [button (5 / 10), button (6 / 10), button (7 / 10), button (8 / 10),
                  button (9 / 10)],
      model_name = ''uitars-7b'', inference_time = 1, status = SUCCESS, source = LOCAL_GPU,
      result_created_at = 0, expires_at = Some (seconds 300), model_version = None\<rparr>"

definition controller5 :: RecognitionController where
  "controller5 = \<lparr>current_result = Some result5, current_element_index = 0\<rparr>"

text \<open>
  Screenshots with distinct fingerprints, a successful result for a screenshot, and a
  cache manager on a new database file.
\<close>

definition shot_b :: Screenshot where
  "shot_b = \<lparr>hash = replicate 64 (CHR ''b''), width = 800, height = 600\<rparr>"

definition shot_c :: Screenshot where
  "shot_c = \<lparr>hash = replicate 64 (CHR ''c''), width = 800, height = 600\<rparr>"

definition result_for :: "Screenshot \<Rightarrow> RecognitionResult" where
  "result_for shot =
     \<lparr>rid = ''r1'', screenshot_hash = hash shot, elements = [button (9 / 10)],
      model_name = ''uitars-7b'', inference_time = 1, status = SUCCESS, source = LOCAL_GPU,
      result_created_at = 0, expires_at = Some (seconds 300), model_version = None\<rparr>"

definition manager_new :: "int \<Rightarrow> int \<Rightarrow> CacheManager" where
  "manager_new ttl n = \<lparr>ttl_seconds = ttl, max_size = n, db = connect_new\<rparr>"

text \<open>
  Three fingerprints put, one second apart, into a new store with \<open>max_size = 2\<close>; and
  one result put at time 0 into a new store with a TTL of 300 seconds.
\<close>

definition three_puts :: CacheManager where
  "three_puts =
     CacheManager_put
       (CacheManager_put
          (CacheManager_put (manager_new 300 2) shot0 (result_for shot0) (seconds 1) (seconds 1))
          shot_b (result_for shot_b) (seconds 2) (seconds 2))
       shot_c (result_for shot_c) (seconds 3) (seconds 3)"

definition one_put :: CacheManager where
  "one_put = CacheManager_put (manager_new 300 1000) shot0 (result_for shot0) 0 0"

text \<open>
  A request on an empty cache with the exhausted engine, never cancelled; and the same
  request when the clock steps back during the inference.
\<close>

definition env0 :: worker_env where
  "env0 =
     \<lparr>captured = Inr shot0, cancel_after_capture = False, cancel_before_inference = False,
      cancel_after_inference = False, consent_given = False,
      t_lookup = 0, t_hit_update = 0, t_expiry_check = 0,
      t_created = seconds 1, t_put = seconds 1, t_put_sql = seconds 1,
      measured_inference_time = 1, uuid_lookup = ''u0'', uuid_result = ''u1''\<rparr>"

definition state0 :: worker_state where
  "state0 =
     \<lparr>controller = \<lparr>current_result = None, current_element_index = 0\<rparr>,
      cache_manager = manager_new 300 1000,
      vision_engine = engine_exhausted\<rparr>"

definition env_clock_back :: worker_env where
  "env_clock_back = env0\<lparr>measured_inference_time := - 1\<rparr>"

text \<open>
  A manager with a TTL of 30 seconds opened on the database file that \<open>one_put\<close>
  left, ten seconds after that put.
\<close>

definition reopened :: CacheManager where
  "reopened =
     \<lparr>ttl_seconds = 30, max_size = 1000,
      db = CacheDatabase_init (db one_put) (seconds 10)\<rparr>"

section \<open>Evaluating floats\<close>

lemma bit_length_0: "bit_length 0 = 0"
  by (simp add: bit_length.simps)

lemma bit_length_pos: "0 < n \<Longrightarrow> bit_length n = Suc (bit_length (n div 2))"
  by (subst bit_length.simps) simp

lemma floor_rat_numeral: "\<lfloor>numeral a / numeral b :: rat\<rfloor> = numeral a div numeral b"
  by (metis floor_divide_of_int_eq of_int_numeral)

lemma ceiling_rat_numeral: "\<lceil>numeral a / numeral b :: rat\<rceil> = - (- numeral a div numeral b)"
  by (metis ceiling_def floor_divide_of_int_eq minus_divide_left of_int_minus of_int_numeral)

lemmas fl_eval = fl_def ilog2_def pow2_def round_half_even_def Let_def
  bit_length_0 bit_length_pos floor_rat_numeral ceiling_rat_numeral

lemma fl_09: "fl (9/10) = 8106479329266893 / 9007199254740992"
  by (simp add: fl_eval)

lemma fl_07: "fl (7/10) = 3152519739159347 / 4503599627370496"
  by (simp add: fl_eval)

lemma fl_1: "fl 1 = 1"
  by (simp add: fl_eval)

lemma fl_1000: "fl 1000 = 1000"
  by (simp add: fl_eval)

lemma fl_d09: "fl (8106479329266893 / 9007199254740992) = 8106479329266893 / 9007199254740992"
  by (simp add: fl_eval)

lemma float_mean_09: "float_mean [9 / 10] = 8106479329266893 / 9007199254740992"
  by (simp add: float_mean_def float_sum_def fl_09 fl_d09)

text \<open>
  Rounding shows: the mean of three confidences 0.7 is below 0.7, and 4.35 seconds are
  4350 milliseconds although the double written 4.35 is below 4.35.
\<close>

lemma float_mean_rounds:
  "float_mean [7 / 10, 7 / 10, 7 / 10] = 6305039478318693 / 9007199254740992
   \<and> determine_status (7 / 10) [button (7 / 10), button (7 / 10), button (7 / 10)]
       = PARTIAL_SUCCESS
   \<and> determine_status (7 / 10) [button (7 / 10)] = SUCCESS"
  by (simp add: determine_status_def button_def float_mean_def float_sum_def fl_eval)

lemma inference_ms_rounds: "inference_ms (435 / 100) = 4350"
  by (simp add: inference_ms_def py_int_def fl_eval)

section \<open>Properties of the vision engine\<close>

lemma called_append: "called (xs @ ys) = called xs @ called ys"
  by (induction xs rule: called.induct) auto

lemma all_fail_append:
  "all_fail shot t seen (as @ bs) \<longleftrightarrow>
     all_fail shot t seen as \<and> all_fail shot t (seen @ map obj as) bs"
  by (induction as arbitrary: seen) (auto split: sum.splits)

lemma try_backups_exhausted:
  "all_fail shot t seen as \<Longrightarrow>
     fst (try_backups as i seen shot t) = None \<and>
     fst (snd (try_backups as i seen shot t)) = seen @ map obj as"
proof (induction as arbitrary: i seen)
  case Nil
  then show ?case by simp
next
  case (Cons a as)
  from Cons.prems obtain e where Inl: "call_infer a seen shot t = Inl e"
    and rest: "all_fail shot t (seen @ [obj a]) as"
    by (auto split: sum.splits)
  obtain r seen' tr where tb: "try_backups as (Suc i) (seen @ [obj a]) shot t = (r, seen', tr)"
    by (cases "try_backups as (Suc i) (seen @ [obj a]) shot t")
  from Cons.IH [OF rest, of "Suc i"] tb have "r = None" "seen' = (seen @ [obj a]) @ map obj as"
    by simp_all
  with Inl tb show ?case by simp
qed

lemma try_cloud_exhausted:
  assumes "all_fail shot t seen
             (if enable_cloud eng \<and> consent
              then (case cloud_adapter eng of None \<Rightarrow> [] | Some c \<Rightarrow> [c]) else [])"
  shows "fst (try_cloud eng consent seen shot t) = None"
  using assms
  by (auto simp: try_cloud_def Let_def split: option.splits sum.splits if_splits)

lemma infer_with_fallback_exhausted:
  assumes "all_adapters_fail eng consent shot t"
  shows "fst (infer_with_fallback eng consent shot t) = ([], CACHE)"
proof -
  let ?p = "primary_adapter eng"
  let ?cl = "if enable_cloud eng \<and> consent
             then (case cloud_adapter eng of None \<Rightarrow> [] | Some c \<Rightarrow> [c]) else []"
  from assms have all: "all_fail shot t [] (?p # backup_adapters eng @ ?cl)"
    by (simp add: all_adapters_fail_def priority_adapters_def)
  then obtain e where Inl: "call_infer ?p [] shot t = Inl e"
    by (auto split: sum.splits)
  from all Inl have rest: "all_fail shot t [obj ?p] (backup_adapters eng @ ?cl)"
    by simp
  then have bs: "all_fail shot t [obj ?p] (backup_adapters eng)"
    and cl: "all_fail shot t ([obj ?p] @ map obj (backup_adapters eng)) ?cl"
    by (simp_all add: all_fail_append)
  let ?eng2 = "eng\<lparr>inference_count := inference_count eng + 1,
                   fallback_count := fallback_count eng + 1\<rparr>"
  obtain r seen tr where tb: "try_backups (backup_adapters eng) 0 [obj ?p] shot t = (r, seen, tr)"
    by (cases "try_backups (backup_adapters eng) 0 [obj ?p] shot t")
  have r: "r = None" and seen: "seen = [obj ?p] @ map obj (backup_adapters eng)"
    using try_backups_exhausted [OF bs, of 0] tb by simp_all
  obtain r' eng3 tr3 where tc: "try_cloud ?eng2 consent seen shot t = (r', eng3, tr3)"
    by (cases "try_cloud ?eng2 consent seen shot t")
  have "all_fail shot t seen
          (if enable_cloud ?eng2 \<and> consent
           then (case cloud_adapter ?eng2 of None \<Rightarrow> [] | Some c \<Rightarrow> [c]) else [])"
    using cl seen by (auto split: if_splits)
  from try_cloud_exhausted [OF this] tc have r': "r' = None" by simp
  show ?thesis
    using Inl tb r tc r' by (simp add: infer_with_fallback_def Let_def)
qed


text \<open>
  C1. When every adapter the invocation may call fails, \<open>infer_with_fallback\<close>
  returns the empty list tagged \<open>InferenceSource.CACHE\<close>: the tag of an exhausted
  invocation is the enum member that stands for a cached result, not a tier of its own.
  Here on a failing primary with no backup and no cloud adapter.
\<close>

theorem exhausted_engine_returns_cache_tier:
  "fst (infer_with_fallback engine_exhausted False shot0 15) = ([], CACHE)"
  by (simp add: infer_with_fallback_def engine_exhausted_def failing_adapter_def
      try_cloud_def call_infer_def Let_def)

text \<open>
  With adapters \<open>[A(fails), B(succeeds)]\<close> and no cloud adapter the invocation returns
  B's elements tagged \<open>LOCAL_CPU\<close> after one call of A and one of B.
\<close>

lemma fallback_example:
  "fst (infer_with_fallback engine_AB False shot0 15) = ([button (9 / 10)], LOCAL_CPU)
   \<and> called (snd (snd (infer_with_fallback engine_AB False shot0 15))) =
       [(Primary, 1), (Backup 0, 2)]"
  by (simp add: infer_with_fallback_def engine_AB_def failing_adapter_def
      returning_adapter_def call_infer_def Let_def)

text \<open>
  C7. When the detector finds the cloud adapter alone, the plugin builds an engine that
  holds that one object in the primary slot and in the cloud slot (it takes the cloud
  adapter out of the backups, not out of the primary slot). An invocation on that engine
  calls the cloud adapter as the primary, before the consent dialog is shown: with consent
  refused the call has been made all the same, and with consent given the same adapter is
  called a second time, in the cloud slot.
\<close>

theorem cloud_adapter_called_without_consent_and_twice:
  "plugin_engine [doubao] True = Some engine_cloud_only
   \<and> snd (snd (infer_with_fallback engine_cloud_only False shot0 15)) =
       [Infer Primary 3, Notify ''Primary model timed out, switching to backup...'',
        AskConsent, Notify ''Cloud API declined by user'']
   \<and> fst (infer_with_fallback engine_cloud_only True shot0 15) =
       ([button (9 / 10)], CLOUD_API)
   \<and> called (snd (snd (infer_with_fallback engine_cloud_only True shot0 15))) =
       [(Primary, 3), (Cloud, 3)]"
  by (simp add: plugin_engine_def doubao_def engine_cloud_only_def infer_with_fallback_def
      try_cloud_def call_infer_def Let_def)

section \<open>Properties of the cursor\<close>

lemma py_getitem_in_range:
  "0 \<le> i \<Longrightarrow> i < int (length xs) \<Longrightarrow> py_getitem xs i = Some (xs ! nat i)"
  by (simp add: py_getitem_def Let_def)

text \<open>
  C9. With a current result of \<open>n \<ge> 1\<close> elements and the index in
  \<open>[0, n-1]\<close>, \<open>get_next_element\<close> and \<open>get_previous_element\<close> leave the
  index in \<open>[0, n-1]\<close>: a move inside the range returns the element moved to, a move past
  the last or the first element returns \<open>None\<close> and leaves the index on that boundary.
  On five elements, ten calls of \<open>get_next_element\<close> from index 0 return the elements
  at 1 to 4 and then \<open>None\<close> six times, the index never above 4.
\<close>

theorem cursor_stays_in_range:
  assumes res: "current_result c = Some r"
    and ne: "elements r \<noteq> []"
    and lo: "0 \<le> current_element_index c"
    and hi: "current_element_index c < int (length (elements r))"
  shows "(case get_next_element c of
            (out, c') \<Rightarrow>
              current_result c' = Some r \<and>
              0 \<le> current_element_index c' \<and>
              current_element_index c' < int (length (elements r)) \<and>
              (if current_element_index c + 1 < int (length (elements r))
               then out = Inr (Some (elements r ! nat (current_element_index c + 1))) \<and>
                    current_element_index c' = current_element_index c + 1
               else out = Inr None \<and>
                    current_element_index c' = int (length (elements r)) - 1))
       \<and> (case get_previous_element c of
            (out, c') \<Rightarrow>
              current_result c' = Some r \<and>
              0 \<le> current_element_index c' \<and>
              current_element_index c' < int (length (elements r)) \<and>
              (if 0 \<le> current_element_index c - 1
               then out = Inr (Some (elements r ! nat (current_element_index c - 1))) \<and>
                    current_element_index c' = current_element_index c - 1
               else out = Inr None \<and> current_element_index c' = 0))
       \<and> get_current_element c = Inr (Some (elements r ! nat (current_element_index c)))
       \<and> (elements r = [e0, e1, e2, e3, e4] \<and> current_element_index c = 0 \<longrightarrow>
            fst (next_times 10 c) =
              [(Inr (Some e1), 1), (Inr (Some e2), 2), (Inr (Some e3), 3), (Inr (Some e4), 4),
               (Inr None, 4), (Inr None, 4), (Inr None, 4), (Inr None, 4), (Inr None, 4),
               (Inr None, 4)]
            \<and> current_element_index (snd (next_times 10 c)) = 4)"
proof -
  have n: "(case get_next_element c of
            (out, c') \<Rightarrow>
              current_result c' = Some r \<and>
              0 \<le> current_element_index c' \<and>
              current_element_index c' < int (length (elements r)) \<and>
              (if current_element_index c + 1 < int (length (elements r))
               then out = Inr (Some (elements r ! nat (current_element_index c + 1))) \<and>
                    current_element_index c' = current_element_index c + 1
               else out = Inr None \<and>
                    current_element_index c' = int (length (elements r)) - 1))"
    using res ne lo hi by (simp add: get_next_element_def Let_def py_getitem_in_range)
  have p: "(case get_previous_element c of
            (out, c') \<Rightarrow>
              current_result c' = Some r \<and>
              0 \<le> current_element_index c' \<and>
              current_element_index c' < int (length (elements r)) \<and>
              (if 0 \<le> current_element_index c - 1
               then out = Inr (Some (elements r ! nat (current_element_index c - 1))) \<and>
                    current_element_index c' = current_element_index c - 1
               else out = Inr None \<and> current_element_index c' = 0))"
    using res ne lo hi by (simp add: get_previous_element_def Let_def py_getitem_in_range)
  have g: "get_current_element c = Inr (Some (elements r ! nat (current_element_index c)))"
    using res ne lo hi by (simp add: get_current_element_def py_getitem_in_range)
  have t: "elements r = [e0, e1, e2, e3, e4] \<and> current_element_index c = 0 \<longrightarrow>
            fst (next_times 10 c) =
              [(Inr (Some e1), 1), (Inr (Some e2), 2), (Inr (Some e3), 3), (Inr (Some e4), 4),
               (Inr None, 4), (Inr None, 4), (Inr None, 4), (Inr None, 4), (Inr None, 4),
               (Inr None, 4)]
            \<and> current_element_index (snd (next_times 10 c)) = 4"
    using res
    by (simp add: eval_nat_numeral get_next_element_def Let_def py_getitem_def)
  from n p g t show ?thesis by blast
qed

theorem cursor_stays_in_range_witness:
  "fst (next_times 10 controller5) =
     [(Inr (Some (button (6 / 10))), 1), (Inr (Some (button (7 / 10))), 2),
      (Inr (Some (button (8 / 10))), 3), (Inr (Some (button (9 / 10))), 4),
      (Inr None, 4), (Inr None, 4), (Inr None, 4), (Inr None, 4), (Inr None, 4),
      (Inr None, 4)]
   \<and> current_element_index (snd (next_times 10 controller5)) = 4
   \<and> get_current_element controller5 = Inr (Some (button (5 / 10)))
   \<and> fst (get_previous_element controller5) = Inr None"
proof -
  have res: "current_result controller5 = Some result5"
    by (simp add: controller5_def)
  have ne: "elements result5 \<noteq> []"
    by (simp add: result5_def)
  have lo: "0 \<le> current_element_index controller5"
    by (simp add: controller5_def)
  have hi: "current_element_index controller5 < int (length (elements result5))"
    by (simp add: controller5_def result5_def)
  have els: "elements result5 =
      [button (5 / 10), button (6 / 10), button (7 / 10), button (8 / 10), button (9 / 10)]"
    by (simp add: result5_def)
  have i0: "current_element_index controller5 = 0"
    by (simp add: controller5_def)
  from cursor_stays_in_range [OF res ne lo hi, of "button (5 / 10)" "button (6 / 10)"
      "button (7 / 10)" "button (8 / 10)" "button (9 / 10)"] els i0
  show ?thesis
    by (auto split: prod.splits)
qed

section \<open>Properties of the result processor\<close>

lemma button_constructed:
  "0 \<le> c \<Longrightarrow> c \<le> 1 \<Longrightarrow>
   UIElement_init ''button'' ''OK'' [100, 100, 180, 130] c None None True 0 = Inr (button c)"
  by (simp add: UIElement_init_def UIElement_post_init_def button_def)

lemma button_survives: "0 \<le> c \<Longrightarrow> c \<le> 1 \<Longrightarrow> filter_invalid [button c] = [button c]"
  by (simp add: filter_invalid_def button_def)

lemma annotate_uncertainty_preserves:
  "annotate_uncertainty thr es = Inr es' \<Longrightarrow>
     map element_type es' = map element_type es \<and> map elem_text es' = map elem_text es \<and>
     map confidence es' = map confidence es \<and> map bbox es' = map bbox es \<and>
     map actionable es' = map actionable es \<and> map elem_id es' = map elem_id es"
  by (induction es arbitrary: es') (auto split: if_splits option.splits sum.splits)

lemma add_uncertain_marks:
  "\<exists>l. map_of (add_uncertain d) ''annotations'' = Some l \<and> ''uncertain'' \<in> set l"
proof (cases "map_of d ''annotations''")
  case None
  then show ?thesis by (simp add: add_uncertain_def map_add_def)
next
  case (Some l)
  have "map_of (map (\<lambda>(k, v). if k = ''annotations'' then (k, v @ [''uncertain'']) else (k, v)) d)
          ''annotations'' = Some (l @ [''uncertain''])"
    using Some by (induction d) (auto split: if_splits)
  with Some show ?thesis by (simp add: add_uncertain_def)
qed

lemma annotate_uncertainty_marks:
  "annotate_uncertainty thr es = Inr es' \<Longrightarrow> i < length es \<Longrightarrow> confidence (es ! i) < thr \<Longrightarrow>
     \<exists>d l. attributes (es' ! i) = Some d \<and> map_of d ''annotations'' = Some l \<and>
           ''uncertain'' \<in> set l"
proof (induction es arbitrary: es' i)
  case Nil
  then show ?case by simp
next
  case (Cons e es)
  show ?case
  proof (cases i)
    case 0
    with Cons.prems add_uncertain_marks show ?thesis
      by (auto split: if_splits option.splits sum.splits)
  next
    case (Suc j)
    with Cons.prems Cons.IH [of _ j] show ?thesis
      by (auto split: if_splits option.splits sum.splits)
  qed
qed

lemma annotate_uncertainty_raises:
  "e \<in> set es \<Longrightarrow> confidence e < thr \<Longrightarrow> attributes e = None \<Longrightarrow>
   annotate_uncertainty thr es = Inl AttributeError"
  by (induction es) (auto split: option.splits sum.splits)

lemma annotate_uncertainty_error:
  "annotate_uncertainty thr es = Inl err \<Longrightarrow> err = AttributeError"
  by (induction es) (auto split: if_splits option.splits sum.splits)

lemma filter_invalid_bbox: "e \<in> set (filter_invalid es) \<Longrightarrow> length (bbox e) = 4"
  by (auto simp: filter_invalid_def split: list.splits)

lemma assign_ids_from_raises:
  "es \<noteq> [] \<Longrightarrow> \<forall>e \<in> set es. elem_id e = None \<Longrightarrow> assign_ids_from i es = Inl AttributeError"
  by (cases es) auto

lemma process_raises_without_id:
  assumes ne: "filter_invalid els \<noteq> []"
    and noid: "\<forall>e \<in> set els. elem_id e = None"
  shows "process thr els shot mname itime src uuid now = Inl AttributeError"
proof (cases "annotate_uncertainty thr (filter_invalid els)")
  case (Inl err)
  then show ?thesis
    using annotate_uncertainty_error [OF Inl] by (simp add: process_def)
next
  case (Inr annotated)
  note pres = annotate_uncertainty_preserves [OF Inr]
  have len: "length annotated = length (filter_invalid els)"
    using pres by (metis length_map)
  have bb: "list_all (\<lambda>e. length (bbox e) = 4) annotated"
  proof -
    have "\<forall>b \<in> set (map bbox annotated). length b = 4"
      using pres filter_invalid_bbox by (metis (no_types, lifting) imageE list.set_map)
    then show ?thesis by (simp add: list_all_iff)
  qed
  have ids: "\<forall>e \<in> set annotated. elem_id e = None"
  proof -
    have "set (filter_invalid els) \<subseteq> set els" by (auto simp: filter_invalid_def)
    then have "\<forall>x \<in> set (map elem_id (filter_invalid els)). x = None" using noid by auto
    then have "\<forall>x \<in> set (map elem_id annotated). x = None" using pres by simp
    then show ?thesis by simp
  qed
  have "sort_key position_key annotated \<noteq> []"
    using len ne by (metis length_0_conv length_sort)
  moreover have "\<forall>e \<in> set (sort_key position_key annotated). elem_id e = None"
    using ids by simp
  ultimately have "assign_ids (sort_key position_key annotated) = Inl AttributeError"
    unfolding assign_ids_def by (rule assign_ids_from_raises)
  with Inr bb show ?thesis by (simp add: process_def sort_by_position_def)
qed

lemma UIElement_init_no_extra_attributes:
  "UIElement_init ty tx bb c app par act created = Inr e \<Longrightarrow>
     attributes e = None \<and> elem_id e = None"
  by (auto simp: UIElement_init_def UIElement_post_init_def split: if_splits list.splits)

lemma process_status:
  "process thr els shot mname itime src uuid now = Inr r \<Longrightarrow>
     status r = determine_status thr (elements r)"
  by (auto simp: process_def RecognitionResult_post_init_def Let_def
      split: sum.splits if_splits)

text \<open>
  C4. An element built by the \<open>UIElement\<close> constructor that survives filtering and has
  a confidence below the threshold: \<open>process\<close> raises \<open>AttributeError\<close> (at
  \<open>element.attributes\<close>) and returns no result.
\<close>

theorem uncertain_element_raises:
  "UIElement_init ''button'' ''OK'' [100, 100, 180, 130] (1 / 2) None None True 0
     = Inr (button (1 / 2))
   \<and> filter_invalid [button (1 / 2)] = [button (1 / 2)]
   \<and> confidence (button (1 / 2)) < 7 / 10
   \<and> process (7 / 10) [button (1 / 2)] shot0 ''uitars-7b'' 1 LOCAL_GPU ''u'' 0
       = Inl AttributeError"
  by (simp add: UIElement_init_def UIElement_post_init_def button_def filter_invalid_def
      process_def)

text \<open>
  C5. The classification itself gives \<open>SUCCESS\<close> on one actionable element of
  confidence 0.9 at threshold 0.7, but \<open>process\<close> on that element, built by the
  \<open>UIElement\<close> constructor, raises \<open>AttributeError\<close> (at \<open>element.id\<close>) before it
  classifies; only the empty input is classified, as \<open>FAILURE\<close>.
\<close>

theorem confident_element_raises:
  "UIElement_init ''button'' ''OK'' [100, 100, 180, 130] (9 / 10) None None True 0
     = Inr (button (9 / 10))
   \<and> determine_status (7 / 10) [button (9 / 10)] = SUCCESS
   \<and> process (7 / 10) [button (9 / 10)] shot0 ''uitars-7b'' 1 LOCAL_GPU ''u'' 0
       = Inl AttributeError
   \<and> (\<exists>r. process (7 / 10) [] shot0 ''uitars-7b'' 1 LOCAL_GPU ''u'' 0 = Inr r \<and>
            status r = FAILURE)"
  by (simp add: UIElement_init_def UIElement_post_init_def button_def filter_invalid_def
      process_def determine_status_def sort_by_position_def position_key_def assign_ids_def
      RecognitionResult_post_init_def Let_def float_mean_09 fl_07)

section \<open>Properties of the cache\<close>

lemma inference_ms_1: "inference_ms 1 = 1000"
  by (simp add: inference_ms_def py_int_def fl_1 fl_1000)

lemmas put_defs = CacheManager_put_def manager_new_def connect_new_def insert_cache_def
      insert_or_ignore_screenshot_def RecognitionResult_to_dict_def evict_lru_def
      UIElement_to_dict_def result_for_def button_def shot0_def shot_b_def shot_c_def
      seconds_def Let_def datetime_min_def datetime_max_def int64_def current_timestamp_def
      inference_ms_1 float_mean_09

lemma insert_elements_keeps:
  "recognition_results (fst (insert_elements store i ds)) = recognition_results store \<and>
   screenshots (fst (insert_elements store i ds)) = screenshots store \<and>
   foreign_keys (fst (insert_elements store i ds)) = foreign_keys store"
  by (induction store i ds rule: insert_elements.induct) (auto split: list.splits)

lemma evict_lru_at_capacity:
  "int (length (recognition_results store)) = max_results \<Longrightarrow> evict_lru store max_results = store"
  by (simp add: evict_lru_def)

lemma insert_cache_at_capacity:
  assumes full: "int (length (recognition_results store)) = max_results"
    and ok: "snd (insert_cache store now sql_now h w ht rd mname ttl_minutes max_results) = None"
  shows "int (length (recognition_results
           (fst (insert_cache store now sql_now h w ht rd mname ttl_minutes max_results))))
         = max_results + 1"
  using full ok insert_elements_keeps
  by (auto simp: insert_cache_def evict_lru_at_capacity Let_def insert_or_ignore_screenshot_def
      split: list.splits if_splits)

text \<open>
  C2. A store with \<open>max_size = 2\<close> that has received three distinct fingerprints holds
  three entries: at a count equal to the maximum \<open>insert_cache\<close> calls
  \<open>_evict_lru\<close>, which returns without evicting because the count does not exceed the
  number to keep, and the insert then takes the count to one above the maximum.
\<close>

theorem store_exceeds_max_entries:
  "max_size three_puts = 2
   \<and> map sha256_hash (screenshots (db three_puts)) = [hash shot0, hash shot_b, hash shot_c]
   \<and> map screenshot_id (recognition_results (db three_puts)) = [1, 2, 3]
   \<and> length (recognition_results (db three_puts)) = 3"
  by (simp add: three_puts_def put_defs)

lemma cleanup_without_enforcement:
  "\<not> foreign_keys store \<Longrightarrow>
     recognition_results (fst (cleanup_expired store now)) = recognition_results store \<and>
     ui_elements (fst (cleanup_expired store now)) = ui_elements store"
  by (simp add: cleanup_expired_def delete_screenshots_def Let_def)

lemma delete_screenshots_cascades_when_enforced:
  assumes "foreign_keys store"
  shows "\<forall>r \<in> set (recognition_results (fst (delete_screenshots P store))).
           \<not> (\<exists>s \<in> set (screenshots store). P s \<and> screenshot_id r = s_id s)"
    and "\<forall>e \<in> set (ui_elements (fst (delete_screenshots P store))).
           \<not> (\<exists>r \<in> set (recognition_results store). \<exists>s \<in> set (screenshots store).
                 P s \<and> screenshot_id r = s_id s \<and> result_id e = r_id r)"
  using assms by (auto simp: delete_screenshots_def delete_results_def Let_def)

text \<open>
  C8. One entry is put at time 0 with a TTL of 300 seconds; the cleanup at 301 seconds
  (also the startup cleanup of \<open>CacheDatabase.__init__\<close>) deletes its
  \<open>screenshots\<close> row and leaves the result row and the element row that refer to it:
  the connection never turns on the enforcement of foreign keys, so the declared
  \<open>ON DELETE CASCADE\<close> does not act.
\<close>

theorem expired_entry_leaves_orphans:
  "map s_expires_at (screenshots (db one_put)) = [seconds 300]
   \<and> snd (cleanup_expired (db one_put) (seconds 301)) = 1
   \<and> screenshots (fst (cleanup_expired (db one_put) (seconds 301))) = []
   \<and> map screenshot_id (recognition_results (fst (cleanup_expired (db one_put) (seconds 301)))) = [1]
   \<and> map result_id (ui_elements (fst (cleanup_expired (db one_put) (seconds 301)))) = [1]
   \<and> CacheDatabase_init (db one_put) (seconds 301) = fst (cleanup_expired (db one_put) (seconds 301))"
  by (simp add: one_put_def put_defs cleanup_expired_def delete_screenshots_def
      CacheDatabase_init_def)

text \<open>
  The order of \<open>last_accessed_at\<close> is the order of the texts: a row inserted at
  10:00:00 and never read sorts before a row last read at 09:30:00 of the same day.
\<close>

lemma text_order_example:
  "text_key (SqlText (seconds 36000)) < text_key (IsoText (seconds 34200))"
  by (simp add: text_key_def seconds_def)

text \<open>An expiry beyond \<open>datetime.max\<close>: nothing is stored.\<close>

lemma insert_cache_overflow:
  "insert_cache connect_new 0 0 h 800 600 rd mname (10 ^ 10) 1000 =
     (connect_new, Some OverflowError)"
  by (simp add: insert_cache_def connect_new_def seconds_def datetime_min_def
      datetime_max_def Let_def)

section \<open>Properties of the worker\<close>

lemma process_empty:
  "0 \<le> itime \<Longrightarrow>
   process thr [] shot mname itime src uuid now =
     Inr \<lparr>rid = uuid, screenshot_hash = hash shot, elements = [], model_name = mname,
          inference_time = itime, status = FAILURE, source = src, result_created_at = now,
          expires_at = Some (now + seconds CACHE_TTL), model_version = None\<rparr>"
  by (simp add: process_def filter_invalid_def sort_by_position_def assign_ids_def
      determine_status_def RecognitionResult_post_init_def Let_def)

lemma process_empty_clock_back:
  "itime < 0 \<Longrightarrow> process thr [] shot mname itime src uuid now = Inl ValueError"
  by (simp add: process_def filter_invalid_def sort_by_position_def assign_ids_def
      determine_status_def RecognitionResult_post_init_def Let_def)

lemma worker_installs_cursor_at_zero:
  assumes "OnComplete r \<in> set (snd (recognition_worker thr timeout env st))"
  shows "controller (fst (recognition_worker thr timeout env st)) =
           \<lparr>current_result = Some r, current_element_index = 0\<rparr>"
  using assms
  by (auto simp: recognition_worker_def Let_def
      split: sum.splits if_splits prod.splits option.splits)

lemma state0_exhausted: "all_adapters_fail (vision_engine state0) False shot0 15"
  by (simp add: all_adapters_fail_def priority_adapters_def engine_exhausted_def
      failing_adapter_def state0_def call_infer_def)

lemma state0_miss:
  "CacheManager_get (cache_manager state0) shot0 0 0 0 ''u0'' = (cache_manager state0, None)"
  by (simp add: state0_def CacheManager_get_def lookup_cache_def manager_new_def
      connect_new_def)

text \<open>
  C3, as stated, fails: with every adapter failing, the worker calls the success callback,
  with a result of status \<open>FAILURE\<close>, and does not call the error callback.
\<close>

theorem exhausted_backends_counterexample:
  "all_adapters_fail engine_exhausted False shot0 15
   \<and> map reported (snd (recognition_worker (7 / 10) 15 env0 state0)) = [Inl (FAILURE, 0)]"
  by (simp add: all_adapters_fail_def priority_adapters_def engine_exhausted_def
      failing_adapter_def call_infer_def recognition_worker_def env0_def state0_def
      CacheManager_get_def lookup_cache_def manager_new_def connect_new_def
      infer_with_fallback_def try_cloud_def Let_def process_empty reported_def)

text \<open>
  C3, amended. When the capture succeeds, the request is not cancelled, the cache lookup
  misses and every adapter fails, the worker makes exactly one callback and leaves the
  cache as the lookup left it. If the measured inference time is not negative, it is the
  success callback, with a result of status \<open>FAILURE\<close> and no elements, which
  becomes the current result; no error callback is made. If the measured inference time is
  negative (\<open>time.time()\<close> stepped back), building the result raises
  \<open>ValueError\<close> and the callback is the error callback with that exception.
\<close>

theorem exhausted_backends_reach_success_callback:
  assumes cap: "captured env = Inr shot"
    and c1: "\<not> cancel_after_capture env"
    and c2: "\<not> cancel_before_inference env"
    and c3: "\<not> cancel_after_inference env"
    and miss: "snd (CacheManager_get (cache_manager st) shot (t_lookup env) (t_hit_update env)
                 (t_expiry_check env) (uuid_lookup env)) = None"
    and exhausted: "all_adapters_fail (vision_engine st) (consent_given env) shot timeout"
  shows "map reported (snd (recognition_worker thr timeout env st)) =
           (if 0 \<le> measured_inference_time env then [Inl (FAILURE, 0)] else [Inr ValueError])
       \<and> (0 \<le> measured_inference_time env \<longrightarrow>
            (\<exists>r. snd (recognition_worker thr timeout env st) = [OnComplete r] \<and>
                 status r = FAILURE \<and> elements r = [] \<and>
                 current_result (controller (fst (recognition_worker thr timeout env st)))
                   = Some r))
       \<and> cache_manager (fst (recognition_worker thr timeout env st)) =
           fst (CacheManager_get (cache_manager st) shot (t_lookup env) (t_hit_update env)
                  (t_expiry_check env) (uuid_lookup env))"
proof -
  obtain m1 where get: "CacheManager_get (cache_manager st) shot (t_lookup env)
      (t_hit_update env) (t_expiry_check env) (uuid_lookup env) = (m1, None)"
    using miss by (metis prod.collapse)
  obtain eng1 evs where run: "infer_with_fallback (vision_engine st) (consent_given env) shot
      timeout = (([], CACHE), eng1, evs)"
    using infer_with_fallback_exhausted [OF exhausted] by (metis prod.collapse)
  show ?thesis
  proof (cases "0 \<le> measured_inference_time env")
    case True
    then show ?thesis
      using cap c1 c2 c3 get run
      by (simp add: recognition_worker_def Let_def process_empty reported_def)
  next
    case False
    then have "measured_inference_time env < 0" by simp
    then show ?thesis
      using cap c1 c2 c3 get run
      by (simp add: recognition_worker_def Let_def process_empty_clock_back reported_def)
  qed
qed

theorem exhausted_backends_reach_success_callback_witness:
  "map reported (snd (recognition_worker (7 / 10) 15 env0 state0)) = [Inl (FAILURE, 0)]
   \<and> map reported (snd (recognition_worker (7 / 10) 15 env_clock_back state0)) =
       [Inr ValueError]
   \<and> cache_manager (fst (recognition_worker (7 / 10) 15 env0 state0)) = cache_manager state0"
proof -
  have cap: "captured env0 = Inr shot0" "captured env_clock_back = Inr shot0"
    by (simp_all add: env0_def env_clock_back_def)
  have c1: "\<not> cancel_after_capture env0" "\<not> cancel_after_capture env_clock_back"
    by (simp_all add: env0_def env_clock_back_def)
  have c2: "\<not> cancel_before_inference env0" "\<not> cancel_before_inference env_clock_back"
    by (simp_all add: env0_def env_clock_back_def)
  have c3: "\<not> cancel_after_inference env0" "\<not> cancel_after_inference env_clock_back"
    by (simp_all add: env0_def env_clock_back_def)
  have miss: "snd (CacheManager_get (cache_manager state0) shot0 (t_lookup env0)
      (t_hit_update env0) (t_expiry_check env0) (uuid_lookup env0)) = None"
    "snd (CacheManager_get (cache_manager state0) shot0 (t_lookup env_clock_back)
      (t_hit_update env_clock_back) (t_expiry_check env_clock_back)
      (uuid_lookup env_clock_back)) = None"
    using state0_miss by (simp_all add: env0_def env_clock_back_def)
  have ex: "all_adapters_fail (vision_engine state0) (consent_given env0) shot0 15"
    "all_adapters_fail (vision_engine state0) (consent_given env_clock_back) shot0 15"
    using state0_exhausted by (simp_all add: env0_def env_clock_back_def)
  have t: "0 \<le> measured_inference_time env0" "\<not> 0 \<le> measured_inference_time env_clock_back"
    by (simp_all add: env0_def env_clock_back_def)
  have g: "fst (CacheManager_get (cache_manager state0) shot0 (t_lookup env0)
      (t_hit_update env0) (t_expiry_check env0) (uuid_lookup env0)) = cache_manager state0"
    using state0_miss by (simp add: env0_def)
  from exhausted_backends_reach_success_callback
         [OF cap(1) c1(1) c2(1) c3(1) miss(1) ex(1), of "7 / 10"]
       exhausted_backends_reach_success_callback
         [OF cap(2) c1(2) c2(2) c3(2) miss(2) ex(2), of "7 / 10"]
       t g
  show ?thesis by simp
qed

section \<open>Round trip through the cache, and expiry\<close>

lemma UIElement_roundtrip:
  assumes "UIElement_post_init e = Inr e"
  shows "UIElement_from_dict (UIElement_to_dict e) = Inr (declared_fields e)"
proof -
  obtain a b c d where bb: "bbox e = [a, b, c, d]"
    using assms by (auto simp: UIElement_post_init_def split: if_splits list.splits)
  from assms bb show ?thesis
    by (cases e)
      (auto simp: UIElement_from_dict_def UIElement_to_dict_def UIElement_init_def
        UIElement_post_init_def declared_fields_def split: if_splits)
qed

lemma elements_roundtrip:
  "\<forall>e \<in> set es. UIElement_post_init e = Inr e \<Longrightarrow>
   map_raising UIElement_from_dict (map UIElement_to_dict es) = Inr (map declared_fields es)"
  by (induction es) (simp_all add: UIElement_roundtrip)

lemma RecognitionResult_roundtrip:
  assumes "\<forall>e \<in> set (elements r). UIElement_post_init e = Inr e"
    and "0 \<le> inference_time r" and "rid r \<noteq> []" and "expires_at r = Some x"
  shows "RecognitionResult_from_dict uuid (RecognitionResult_to_dict r) =
           Inr (r\<lparr>elements := map declared_fields (elements r)\<rparr>)"
  using assms
  by (cases r)
    (simp add: RecognitionResult_from_dict_def RecognitionResult_to_dict_def elements_roundtrip
      RecognitionResult_post_init_def enum_of_key_def Let_def)

lemma declared_fields_eq: "list_all2 UIElement_eq (map declared_fields es) es"
  by (induction es) (simp_all add: UIElement_eq_def declared_fields_def)

text \<open>
  A stored status string that names an attribute of the enum class and no member makes
  \<open>from_dict\<close> raise.
\<close>

lemma enum_key_attribute_raises:
  "RecognitionResult_from_dict uuid
     ((RecognitionResult_to_dict r)\<lparr>d_status := AttributeName ''__members__''\<rparr>)
   \<noteq> Inr r'"
  by (auto simp: RecognitionResult_from_dict_def enum_of_key_def split: sum.splits)

lemma evict_lru_keeps:
  "screenshots (evict_lru store k) = screenshots store \<and>
   set (recognition_results (evict_lru store k)) \<subseteq> set (recognition_results store)"
  by (auto simp: evict_lru_def delete_results_def Let_def)

lemma insert_or_ignore_screenshots:
  "s \<in> set (screenshots (insert_or_ignore_screenshot d h w ht now ex)) \<Longrightarrow>
     s \<in> set (screenshots d) \<or>
     (sha256_hash s = h \<and> s_expires_at s = ex \<and> captured_at s = now \<and>
      (\<forall>s' \<in> set (screenshots d). sha256_hash s' \<noteq> h))"
  by (auto simp: insert_or_ignore_screenshot_def split: if_splits)

lemma insert_cache_screenshots:
  assumes "s \<in> set (screenshots (fst (insert_cache store now sql_now h w ht rd mname ttl mx)))"
  shows "s \<in> set (screenshots store) \<or>
         (sha256_hash s = h \<and> s_expires_at s = now + seconds (ttl * 60) \<and>
          captured_at s = now \<and> (\<forall>s' \<in> set (screenshots store). sha256_hash s' \<noteq> h))"
proof -
  let ?db1 = "if int (length (recognition_results store)) \<ge> mx then evict_lru store mx else store"
  let ?db2 = "insert_or_ignore_screenshot ?db1 h w ht now (now + seconds (ttl * 60))"
  have s1: "screenshots ?db1 = screenshots store"
    using evict_lru_keeps [of store mx] by simp
  have "screenshots (fst (insert_cache store now sql_now h w ht rd mname ttl mx)) = screenshots ?db1
      \<or> screenshots (fst (insert_cache store now sql_now h w ht rd mname ttl mx)) = screenshots ?db2"
    using insert_elements_keeps
    by (auto simp: insert_cache_def Let_def split: list.splits)
  then show ?thesis
  proof
    assume "screenshots (fst (insert_cache store now sql_now h w ht rd mname ttl mx)) = screenshots ?db1"
    with assms s1 show ?thesis by simp
  next
    assume "screenshots (fst (insert_cache store now sql_now h w ht rd mname ttl mx)) = screenshots ?db2"
    with assms have "s \<in> set (screenshots ?db2)" by simp
    from insert_or_ignore_screenshots [OF this] show ?thesis
      unfolding s1 .
  qed
qed

lemma lookup_miss:
  assumes "\<forall>s \<in> set (screenshots store). sha256_hash s = h \<longrightarrow> s_expires_at s \<le> now1"
  shows "lookup_cache store now1 now2 h = (store, None)"
proof -
  have "filter (\<lambda>r. \<exists>s \<in> set (screenshots store).
                   screenshot_id r = s_id s \<and> sha256_hash s = h \<and> s_expires_at s > now1)
          (recognition_results store) = []"
    using assms by (auto simp: filter_empty_conv)
  then show ?thesis by (simp add: lookup_cache_def)
qed

lemmas get_defs = CacheManager_get_def lookup_cache_def RecognitionResult_from_dict_def
  UIElement_from_dict_def UIElement_init_def UIElement_post_init_def
  RecognitionResult_post_init_def is_expired_def enum_of_key_def

text \<open>
  On a new store with a TTL of 300 seconds, the lookup one second after the put returns the
  result that was put.
\<close>

lemma lookup_after_put_hits_example:
  "snd (CacheManager_get one_put shot0 (seconds 1) (seconds 1) (seconds 1) ''u0'')
     = Some (result_for shot0)"
  by (simp add: one_put_def put_defs get_defs)

text \<open>
  C6. A lookup right after a put can miss. On a manager with a TTL of 30 seconds the lookup
  made at the very instant of the put is a miss: \<open>ttl_seconds // 60\<close> is 0 minutes.
  And with a TTL of 300 seconds, a put 400 seconds after the first put of the same
  fingerprint, with no cleanup in between, is followed by a miss: \<open>INSERT OR IGNORE\<close>
  leaves the \<open>screenshots\<close> row with the expiry of the first put.
\<close>

theorem lookup_after_put_can_miss:
  "snd (CacheManager_get
          (CacheManager_put (manager_new 30 1000) shot0 (result_for shot0) 0 0)
          shot0 0 0 0 ''u0'') = None
   \<and> snd (CacheManager_get
            (CacheManager_put one_put shot0 (result_for shot0) (seconds 400) (seconds 400))
            shot0 (seconds 400) (seconds 400) (seconds 400) ''u0'') = None
   \<and> map s_expires_at
         (screenshots (db (CacheManager_put one_put shot0 (result_for shot0) (seconds 400)
                             (seconds 400)))) = [seconds 300]"
  by (simp add: one_put_def put_defs CacheManager_get_def lookup_cache_def)

text \<open>
  C10, as stated, fails twice. A manager with a TTL of 30 seconds, opened on a store where
  the fingerprint has an unexpired \<open>screenshots\<close> row, puts and then hits:
  \<open>INSERT OR IGNORE\<close> keeps the old row and its expiry. And a negative TTL below 60
  gives \<open>ttl_seconds // 60 = -1\<close>, an expiry a minute before the insertion.
\<close>

theorem short_ttl_counterexample:
  "ttl_seconds reopened = 30
   \<and> snd (CacheManager_get
            (CacheManager_put reopened shot0 (result_for shot0) (seconds 10) (seconds 10))
            shot0 (seconds 11) (seconds 11) (seconds 11) ''u0'') = Some (result_for shot0)
   \<and> map s_expires_at
        (screenshots (db (CacheManager_put (manager_new (- 1) 1000) shot0 (result_for shot0)
                            (seconds 100) (seconds 100)))) = [seconds 40]"
  by (simp add: reopened_def one_put_def put_defs get_defs
      CacheDatabase_init_def cleanup_expired_def delete_screenshots_def)

text \<open>
  C10, amended. For a manager with \<open>0 \<le> ttl_seconds < 60\<close>, \<open>put\<close> passes
  \<open>ttl_minutes = 0\<close>. If every \<open>screenshots\<close> row the store holds for the
  fingerprint is expired at the time of the put, then after the put every row of that
  fingerprint is expired at that time, a row the put wrote expires exactly at its insertion
  time, and every lookup at that time or later is a miss that leaves the manager as it was
  (so the lookups after it miss too).
\<close>

theorem short_ttl_always_misses:
  assumes ttl: "0 \<le> ttl_seconds m" "ttl_seconds m < 60"
    and old: "\<forall>s \<in> set (screenshots (db m)). sha256_hash s = hash shot \<longrightarrow> s_expires_at s \<le> now"
    and later: "now \<le> now1"
  shows "ttl_seconds m div 60 = 0
       \<and> (\<forall>s \<in> set (screenshots (db (CacheManager_put m shot res now sql_now))).
             sha256_hash s = hash shot \<longrightarrow>
               s_expires_at s \<le> now \<and>
               (s \<notin> set (screenshots (db m)) \<longrightarrow> s_expires_at s = now \<and> captured_at s = now))
       \<and> CacheManager_get (CacheManager_put m shot res now sql_now) shot now1 now2 now3 uuid
           = (CacheManager_put m shot res now sql_now, None)"
proof -
  let ?m' = "CacheManager_put m shot res now sql_now"
  have zero: "ttl_seconds m div 60 = 0"
    using ttl by simp
  have dbm: "db ?m' = fst (insert_cache (db m) now sql_now (hash shot) (width shot) (height shot)
      (RecognitionResult_to_dict res) (model_name res) 0 (max_size m))"
    by (simp add: CacheManager_put_def zero)
  have shots: "\<forall>s \<in> set (screenshots (db ?m')). sha256_hash s = hash shot \<longrightarrow>
      s_expires_at s \<le> now \<and>
      (s \<notin> set (screenshots (db m)) \<longrightarrow> s_expires_at s = now \<and> captured_at s = now)"
  proof (intro ballI impI)
    fix s
    assume s: "s \<in> set (screenshots (db ?m'))" and h: "sha256_hash s = hash shot"
    from s have "s \<in> set (screenshots (fst (insert_cache (db m) now sql_now (hash shot)
        (width shot) (height shot) (RecognitionResult_to_dict res) (model_name res) 0
        (max_size m))))"
      unfolding dbm .
    from insert_cache_screenshots [OF this]
    show "s_expires_at s \<le> now \<and>
      (s \<notin> set (screenshots (db m)) \<longrightarrow> s_expires_at s = now \<and> captured_at s = now)"
      using old h by (auto simp: seconds_def)
  qed
  then have "\<forall>s \<in> set (screenshots (db ?m')). sha256_hash s = hash shot \<longrightarrow> s_expires_at s \<le> now1"
    using later by fastforce
  then have "lookup_cache (db ?m') now1 now2 (hash shot) = (db ?m', None)"
    by (rule lookup_miss)
  then have "CacheManager_get ?m' shot now1 now2 now3 uuid = (?m', None)"
    by (simp add: CacheManager_get_def)
  with zero shots show ?thesis by blast
qed

theorem short_ttl_always_misses_witness:
  "ttl_seconds (manager_new 30 1000) div 60 = 0
   \<and> map s_expires_at
        (screenshots (db (CacheManager_put (manager_new 30 1000) shot0 (result_for shot0)
                            (seconds 5) (seconds 5)))) = [seconds 5]
   \<and> snd (CacheManager_get
            (CacheManager_put (manager_new 30 1000) shot0 (result_for shot0) (seconds 5) (seconds 5))
            shot0 (seconds 5) (seconds 5) (seconds 5) ''u0'') = None"
proof -
  have a: "0 \<le> ttl_seconds (manager_new 30 1000)" by (simp add: manager_new_def)
  have b: "ttl_seconds (manager_new 30 1000) < 60" by (simp add: manager_new_def)
  have c: "\<forall>s \<in> set (screenshots (db (manager_new 30 1000))).
      sha256_hash s = hash shot0 \<longrightarrow> s_expires_at s \<le> seconds 5"
    by (simp add: manager_new_def connect_new_def)
  have d: "seconds 5 \<le> seconds 5" by simp
  have e: "map s_expires_at
        (screenshots (db (CacheManager_put (manager_new 30 1000) shot0 (result_for shot0)
                            (seconds 5) (seconds 5)))) = [seconds 5]"
    by (simp add: put_defs)
  from short_ttl_always_misses [OF a b c d, of "result_for shot0" "seconds 5" "seconds 5"
      "seconds 5" "''u0''"] e
  show ?thesis by simp
qed

end
